theory Spec2Isabelle
  imports Main "HOL-Library.Char_ord" "HOL-Library.List_Lexorder" "HOL-Library.Multiset"
begin

section \<open>Python values handled by the App Engine backend\<close>

text \<open>
  The backend (\<^verbatim>\<open>djangae/db/backends/appengine/base.py\<close>) is Python 2 code: it
  tells \<^verbatim>\<open>str\<close> from \<^verbatim>\<open>unicode\<close> (both are \<^verbatim>\<open>basestring\<close>) and
  \<^verbatim>\<open>int\<close> from \<^verbatim>\<open>long\<close>. The values that flow through it are modelled by one
  datatype. A byte string is a list of bytes (\<open>string\<close>), a unicode string a list of
  code points. \<^verbatim>\<open>Text\<close> is the datastore's subclass of \<^verbatim>\<open>unicode\<close>, \<^verbatim>\<open>Blob\<close> its
  subclass of \<^verbatim>\<open>str\<close>, \<^verbatim>\<open>bool\<close> a subclass of \<^verbatim>\<open>int\<close>. A date is a day number, a time of day a number of microseconds
  since midnight with an optional UTC offset in minutes (\<^verbatim>\<open>tzinfo\<close>), a datetime both.
  A decimal is a sign, a coefficient and a number of decimal places. A float is only
  ever tested for being zero: it is kept as mantissa and exponent.
\<close>

datatype error =
    IntegrityError | ValueError | TypeError | KeyError | AttributeError
  | FieldDoesNotExist | UnicodeDecodeError | InvalidOperation | StopIteration

type_synonym unicode = "nat list"

record pytime =
  t_usec :: nat
  t_tz :: "int option"

record pydatetime =
  d_day :: int
  d_usec :: nat
  d_tz :: "int option"

record pydecimal =
  dec_neg :: bool
  dec_coeff :: nat
  dec_places :: nat

datatype pyval =
    PNone
  | PBool bool
  | PInt int
  | PLong int
  | PFloat int int
  | PStr string
  | PUnicode unicode
  | PText unicode
  | PBlob string
  | PDate int
  | PDateTime pydatetime
  | PTime pytime
  | PDecimal pydecimal
  | PList "pyval list"
  | PKey string pyval

text \<open>Python 2 truth value testing (\<^verbatim>\<open>if value:\<close>). A time of day is false at
  midnight UTC, as in every Python before 3.5.\<close>

definition time_nonzero :: "pytime \<Rightarrow> bool" where
  "time_nonzero t =
     (if t_usec t mod 60000000 \<noteq> 0 then True
      else int (t_usec t div 60000000) - (case t_tz t of None \<Rightarrow> 0 | Some off \<Rightarrow> off) \<noteq> 0)"

fun truthy :: "pyval \<Rightarrow> bool" where
  "truthy PNone = False"
| "truthy (PBool b) = b"
| "truthy (PInt n) = (n \<noteq> 0)"
| "truthy (PLong n) = (n \<noteq> 0)"
| "truthy (PFloat m e) = (m \<noteq> 0)"
| "truthy (PStr s) = (s \<noteq> [])"
| "truthy (PUnicode u) = (u \<noteq> [])"
| "truthy (PText u) = (u \<noteq> [])"
| "truthy (PBlob s) = (s \<noteq> [])"
| "truthy (PDate d) = True"
| "truthy (PDateTime d) = True"
| "truthy (PTime t) = time_nonzero t"
| "truthy (PDecimal d) = (dec_coeff d \<noteq> 0)"
| "truthy (PList xs) = (xs \<noteq> [])"
| "truthy (PKey k v) = True"

text \<open>\<^verbatim>\<open>isinstance(v, int)\<close>, \<^verbatim>\<open>isinstance(v, (int, long))\<close>, \<^verbatim>\<open>isinstance(v, str)\<close>
  and \<^verbatim>\<open>isinstance(v, basestring)\<close>.\<close>

fun is_int :: "pyval \<Rightarrow> bool" where
  "is_int (PInt n) = True"
| "is_int (PBool b) = True"
| "is_int v = False"

fun is_int_or_long :: "pyval \<Rightarrow> bool" where
  "is_int_or_long (PInt n) = True"
| "is_int_or_long (PBool b) = True"
| "is_int_or_long (PLong n) = True"
| "is_int_or_long v = False"

fun is_str :: "pyval \<Rightarrow> bool" where
  "is_str (PStr s) = True"
| "is_str (PBlob s) = True"
| "is_str v = False"

fun is_basestring :: "pyval \<Rightarrow> bool" where
  "is_basestring (PStr s) = True"
| "is_basestring (PBlob s) = True"
| "is_basestring (PUnicode u) = True"
| "is_basestring (PText u) = True"
| "is_basestring v = False"

text \<open>\<^verbatim>\<open>len(v)\<close> and the slices \<^verbatim>\<open>v[:n]\<close>, \<^verbatim>\<open>v[n:]\<close> of a string. Slicing a
  \<^verbatim>\<open>Text\<close> or a \<^verbatim>\<open>Blob\<close> gives a plain \<^verbatim>\<open>unicode\<close> or \<^verbatim>\<open>str\<close>.\<close>

fun py_len :: "pyval \<Rightarrow> nat" where
  "py_len (PStr s) = length s"
| "py_len (PBlob s) = length s"
| "py_len (PUnicode u) = length u"
| "py_len (PText u) = length u"
| "py_len (PList xs) = length xs"
| "py_len v = 0"

fun slice_to :: "nat \<Rightarrow> pyval \<Rightarrow> pyval" where
  "slice_to n (PStr s) = PStr (take n s)"
| "slice_to n (PBlob s) = PStr (take n s)"
| "slice_to n (PUnicode u) = PUnicode (take n u)"
| "slice_to n (PText u) = PUnicode (take n u)"
| "slice_to n v = v"

fun slice_from :: "nat \<Rightarrow> pyval \<Rightarrow> pyval" where
  "slice_from n (PStr s) = PStr (drop n s)"
| "slice_from n (PBlob s) = PStr (drop n s)"
| "slice_from n (PUnicode u) = PUnicode (drop n u)"
| "slice_from n (PText u) = PUnicode (drop n u)"
| "slice_from n v = v"

section \<open>Fields, models and the environment\<close>

text \<open>A field descriptor of the framework: the attributes the backend reads.
  \<open>model_label\<close> identifies the model that declares the field (\<^verbatim>\<open>field.model\<close>),
  \<open>class_name\<close> is \<^verbatim>\<open>field.__class__.__name__\<close>.\<close>

record field =
  name :: string
  attname :: string
  column :: string
  null :: bool
  primary_key :: bool
  unique :: bool
  model_label :: string
  class_name :: string
  max_digits :: nat
  decimal_places :: nat

text \<open>A model's \<^verbatim>\<open>_meta\<close>. \<open>parents\<close> lists the keys of \<^verbatim>\<open>_meta.parents\<close>,
  \<open>get_parent_list\<close> what the framework's method of that name returns, in the order of
  iteration, \<open>get_all_related_objects\<close> the related objects as pairs of the related
  model and the accessor name (\<^verbatim>\<open>obj.model\<close>, \<^verbatim>\<open>obj.var_name\<close>), \<open>meta_fields\<close>
  is \<^verbatim>\<open>_meta.fields\<close>. Models are compared by \<open>label\<close>.\<close>

datatype model = Model
  (label: string)
  (app_label: string)
  (db_table: string)
  (abstract: bool)
  (parents: "model list")
  (get_parent_list: "model list")
  (meta_fields: "field list")
  (pk: field)
  (unique_together: "string list list")
  (get_all_related_objects: "(model \<times> string) list")

text \<open>A model instance: \<^verbatim>\<open>instance._state.adding\<close>, its attributes
  (\<^verbatim>\<open>getattr(instance, attname)\<close>) and, per accessor name of a related object, the
  \<^verbatim>\<open>_meta.fields\<close> of the object found there (\<open>None\<close> when the accessor raises
  \<^verbatim>\<open>DoesNotExist\<close>).\<close>

record model_instance =
  adding :: bool
  attrs :: "string \<rightharpoonup> pyval"
  related :: "string \<rightharpoonup> field list"

text \<open>A special indexer (an entry of \<^verbatim>\<open>REQUIRES_SPECIAL_INDEXES\<close>).\<close>

record indexer =
  indexed_column_name :: "string \<Rightarrow> string"
  prep_value_for_database :: "pyval \<Rightarrow> pyval"

text \<open>
  What the backend takes from outside this file, as parameters: the settings it reads,
  \<^verbatim>\<open>sys.argv\<close>, the store's kind enumeration (\<^verbatim>\<open>metadata.get_kinds()\<close>), the
  framework's \<^verbatim>\<open>field.pre_save\<close>, \<^verbatim>\<open>field.get_db_prep_save\<close> and
  \<^verbatim>\<open>BaseDatabaseOperations.convert_values\<close>, Python's \<^verbatim>\<open>str.decode('utf-8')\<close>,
  \<^verbatim>\<open>datetime.fromtimestamp(float(v) / 1000000.0)\<close> (a floating-point, local-time
  conversion, here of a number of microseconds), the registry of
  \<^verbatim>\<open>djangae.indexing\<close>, the \<^verbatim>\<open>'%s' % value\<close> formatting of a value, and
  \<^verbatim>\<open>get_field_from_column\<close> of the commands module.
\<close>

record env =
  USE_TZ :: bool
  COMPLETE_FLUSH_WHILE_TESTING :: "pyval option"
  sys_argv :: "string list"
  get_kinds :: "string list"
  pre_save :: "field \<Rightarrow> model_instance \<Rightarrow> bool \<Rightarrow> error + pyval"
  get_db_prep_save :: "field \<Rightarrow> pyval \<Rightarrow> error + pyval"
  super_convert_values :: "pyval \<Rightarrow> field \<Rightarrow> error + pyval"
  decode_utf8 :: "string \<Rightarrow> unicode option"
  fromtimestamp :: "int \<Rightarrow> pydatetime"
  special_indexes_for_column :: "model \<Rightarrow> string \<Rightarrow> string list"
  REQUIRES_SPECIAL_INDEXES :: "string \<rightharpoonup> indexer"
  format_value :: "pyval \<Rightarrow> string"
  get_field_from_column :: "model \<Rightarrow> string \<Rightarrow> field"

section \<open>Flush\<close>

datatype command = FlushCommand string

text \<open>\<^verbatim>\<open>DatabaseOperations.sql_flush\<close>: the caller's tables, replaced by the store's
  kinds only when the setting is truthy and \<^verbatim>\<open>"test"\<close> is in \<^verbatim>\<open>sys.argv\<close>.\<close>

definition sql_flush :: "env \<Rightarrow> string list \<Rightarrow> command list" where
  "sql_flush e tables =
     (let tables' =
        (if truthy (case COMPLETE_FLUSH_WHILE_TESTING e of None \<Rightarrow> PBool False | Some v \<Rightarrow> v)
         then (if ''test'' \<in> set (sys_argv e) then get_kinds e else tables)
         else tables)
      in map FlushCommand tables')"

section \<open>Value codec\<close>

text \<open>\<^verbatim>\<open>DatabaseCreation.data_types\<close> and \<^verbatim>\<open>db_type\<close>, a dictionary lookup by the
  field's class name (a \<^verbatim>\<open>KeyError\<close> for a class that is not listed).\<close>

definition data_types :: "(string \<times> string) list" where
  "data_types =
   [(''AutoField'', ''key''), (''RelatedAutoField'', ''key''), (''ForeignKey'', ''key''),
    (''OneToOneField'', ''key''), (''ManyToManyField'', ''key''),
    (''BigIntegerField'', ''long''), (''BooleanField'', ''bool''),
    (''CharField'', ''string''), (''CommaSeparatedIntegerField'', ''string''),
    (''DateField'', ''date''), (''DateTimeField'', ''datetime''),
    (''DecimalField'', ''decimal''), (''EmailField'', ''string''),
    (''FileField'', ''string''), (''FilePathField'', ''string''),
    (''FloatField'', ''float''), (''ImageField'', ''string''),
    (''IntegerField'', ''integer''), (''IPAddressField'', ''string''),
    (''NullBooleanField'', ''bool''), (''PositiveIntegerField'', ''integer''),
    (''PositiveSmallIntegerField'', ''integer''), (''SlugField'', ''string''),
    (''SmallIntegerField'', ''integer''), (''TimeField'', ''time''),
    (''URLField'', ''string''), (''AbstractIterableField'', ''list''),
    (''ListField'', ''list''), (''RawField'', ''raw''), (''BlobField'', ''bytes''),
    (''TextField'', ''text''), (''XMLField'', ''text''), (''SetField'', ''list''),
    (''DictField'', ''bytes''), (''EmbeddedModelField'', ''bytes'')]"

definition db_type :: "field \<Rightarrow> error + string" where
  "db_type f = (case map_of data_types (class_name f) of None \<Rightarrow> Inl KeyError | Some t \<Rightarrow> Inr t)"

text \<open>\<^verbatim>\<open>value.decode('utf-8')\<close> of a byte string.\<close>

definition decode :: "env \<Rightarrow> pyval \<Rightarrow> error + pyval" where
  "decode e v =
     (case v of
        PStr s \<Rightarrow> (case decode_utf8 e s of None \<Rightarrow> Inl UnicodeDecodeError | Some u \<Rightarrow> Inr (PUnicode u))
      | PBlob s \<Rightarrow> (case decode_utf8 e s of None \<Rightarrow> Inl UnicodeDecodeError | Some u \<Rightarrow> Inr (PUnicode u))
      | _ \<Rightarrow> Inl AttributeError)"

text \<open>The datastore's constructors \<^verbatim>\<open>Text(value)\<close> and \<^verbatim>\<open>Blob(value)\<close>: \<^verbatim>\<open>Text\<close>
  takes a unicode string, or a byte string that it decodes as ASCII, \<^verbatim>\<open>Blob\<close> a byte
  string; anything else is a \<^verbatim>\<open>TypeError\<close>.\<close>

definition is_ascii :: "string \<Rightarrow> bool" where
  "is_ascii s = list_all (\<lambda>c. (of_char c :: nat) < 128) s"

definition ascii_decode :: "string \<Rightarrow> unicode" where
  "ascii_decode s = map of_char s"

fun Text :: "pyval \<Rightarrow> error + pyval" where
  "Text (PUnicode u) = Inr (PText u)"
| "Text (PText u) = Inr (PText u)"
| "Text (PStr s) = (if is_ascii s then Inr (PText (ascii_decode s)) else Inl UnicodeDecodeError)"
| "Text (PBlob s) = (if is_ascii s then Inr (PText (ascii_decode s)) else Inl UnicodeDecodeError)"
| "Text v = Inl TypeError"

fun Blob :: "pyval \<Rightarrow> error + pyval" where
  "Blob (PStr s) = Inr (PBlob s)"
| "Blob (PBlob s) = Inr (PBlob s)"
| "Blob v = Inl TypeError"

text \<open>\<^verbatim>\<open>datetime.datetime.combine(date, time)\<close>: the date of its first argument (a date
  or a datetime), the time of day and the \<^verbatim>\<open>tzinfo\<close> of its second, which must be a
  time. \<^verbatim>\<open>value.date()\<close> and \<^verbatim>\<open>value.time()\<close> of a datetime (the latter drops the
  \<^verbatim>\<open>tzinfo\<close>); other values have no such method.\<close>

definition combine :: "pyval \<Rightarrow> pyval \<Rightarrow> error + pyval" where
  "combine d t =
     (case t of
        PTime tm \<Rightarrow>
          (case d of
             PDate n \<Rightarrow> Inr (PDateTime \<lparr>d_day = n, d_usec = t_usec tm, d_tz = t_tz tm\<rparr>)
           | PDateTime dt \<Rightarrow> Inr (PDateTime \<lparr>d_day = d_day dt, d_usec = t_usec tm, d_tz = t_tz tm\<rparr>)
           | _ \<Rightarrow> Inl TypeError)
      | _ \<Rightarrow> Inl TypeError)"

definition date_of :: "pyval \<Rightarrow> error + pyval" where
  "date_of v = (case v of PDateTime dt \<Rightarrow> Inr (PDate (d_day dt)) | _ \<Rightarrow> Inl AttributeError)"

definition time_of :: "pyval \<Rightarrow> error + pyval" where
  "time_of v =
     (case v of PDateTime dt \<Rightarrow> Inr (PTime \<lparr>t_usec = d_usec dt, t_tz = None\<rparr>)
      | _ \<Rightarrow> Inl AttributeError)"

text \<open>The framework's \<^verbatim>\<open>timezone.is_naive(value)\<close> (no \<^verbatim>\<open>tzinfo\<close>) and
  \<^verbatim>\<open>value.replace(tzinfo=timezone.utc)\<close>, on a datetime or a time; other values have
  no \<^verbatim>\<open>tzinfo\<close>.\<close>

definition is_naive :: "pyval \<Rightarrow> error + bool" where
  "is_naive v =
     (case v of PDateTime dt \<Rightarrow> Inr (d_tz dt = None) | PTime tm \<Rightarrow> Inr (t_tz tm = None)
      | _ \<Rightarrow> Inl AttributeError)"

definition replace_tzinfo_utc :: "pyval \<Rightarrow> error + pyval" where
  "replace_tzinfo_utc v =
     (case v of PDateTime dt \<Rightarrow> Inr (PDateTime (dt\<lparr>d_tz := Some 0\<rparr>))
      | PTime tm \<Rightarrow> Inr (PTime (tm\<lparr>t_tz := Some 0\<rparr>))
      | _ \<Rightarrow> Inl AttributeError)"

text \<open>Modelled from the spec: \<^verbatim>\<open>make_timezone_naive\<close> is imported from
  \<^verbatim>\<open>djangae.db.utils\<close>, which is not among the source files. The spec (4.1): a
  date, time or datetime is "normalized to a timezone-naive instant before storage".
  A naive value is kept; an aware one is moved to UTC and loses its \<^verbatim>\<open>tzinfo\<close>;
  \<^verbatim>\<open>None\<close> stays \<^verbatim>\<open>None\<close>. A value with no \<^verbatim>\<open>tzinfo\<close> to read is an
  \<^verbatim>\<open>AttributeError\<close>.\<close>

definition usec_per_day :: int where
  "usec_per_day = 86400000000"

definition usec_per_minute :: int where
  "usec_per_minute = 60000000"

definition datetime_instant :: "pydatetime \<Rightarrow> int" where
  "datetime_instant dt =
     d_day dt * usec_per_day + int (d_usec dt)
       - (case d_tz dt of None \<Rightarrow> 0 | Some off \<Rightarrow> off * usec_per_minute)"

definition make_timezone_naive :: "pyval \<Rightarrow> error + pyval" where
  "make_timezone_naive v =
     (case v of
        PNone \<Rightarrow> Inr PNone
      | PDateTime dt \<Rightarrow>
          (case d_tz dt of
             None \<Rightarrow> Inr (PDateTime dt)
           | Some off \<Rightarrow>
               Inr (PDateTime \<lparr>d_day = datetime_instant dt div usec_per_day,
                                d_usec = nat (datetime_instant dt mod usec_per_day),
                                d_tz = None\<rparr>))
      | PTime tm \<Rightarrow>
          (case t_tz tm of
             None \<Rightarrow> Inr (PTime tm)
           | Some off \<Rightarrow>
               Inr (PTime \<lparr>t_usec = nat ((int (t_usec tm) - off * usec_per_minute) mod usec_per_day),
                            t_tz = None\<rparr>))
      | _ \<Rightarrow> Inl AttributeError)"

text \<open>Modelled from the spec: \<^verbatim>\<open>decimal_to_string\<close> is imported from
  \<^verbatim>\<open>djangae.db.utils\<close>, which is not among the source files. The spec (4.1): a
  decimal is "serialized as a fixed-width, lexicographically-sortable string derived
  from (value, max_digits, decimal_places)". The value is brought to \<open>decimal_places\<close>
  places; its integer part is written with \<open>max_digits - decimal_places\<close> digits and
  its fraction with \<open>decimal_places\<close> digits, both padded with zeros, after a minus sign
  for a negative value. The spec gives no rounding for a value with more places than
  declared: the extra places are cut.\<close>

primrec fixed_digits :: "nat \<Rightarrow> nat \<Rightarrow> unicode" where
  "fixed_digits 0 n = []"
| "fixed_digits (Suc w) n = fixed_digits w (n div 10) @ [48 + n mod 10]"

definition quantize :: "pydecimal \<Rightarrow> nat \<Rightarrow> nat" where
  "quantize d places =
     (if dec_places d \<le> places then dec_coeff d * 10 ^ (places - dec_places d)
      else dec_coeff d div 10 ^ (dec_places d - places))"

definition decimal_to_string :: "pydecimal \<Rightarrow> nat \<Rightarrow> nat \<Rightarrow> unicode" where
  "decimal_to_string d md dp =
     (let q = quantize d dp;
          sign = (if dec_neg d then [45] else []);
          whole = fixed_digits (md - dp) (q div 10 ^ dp);
          frac = (if dp = 0 then [] else 46 # fixed_digits dp (q mod 10 ^ dp))
      in sign @ whole @ frac)"

text \<open>Python's \<^verbatim>\<open>decimal.Decimal(value)\<close>. Of a string it reads an optional sign,
  digits and an optional point followed by digits (at least one digit in all); the
  exponent, \<^verbatim>\<open>Infinity\<close> and \<^verbatim>\<open>NaN\<close> notations and surrounding blanks, which
  the backend never writes, are not modelled and read as malformed. An integer and a
  float convert exactly (\<open>m * 2 ^ e\<close> is \<open>m * 5 ^ (-e) / 10 ^ (-e)\<close> for a negative
  \<open>e\<close>).\<close>

definition digit_val :: "nat \<Rightarrow> nat option" where
  "digit_val c = (if 48 \<le> c \<and> c \<le> 57 then Some (c - 48) else None)"

fun parse_digits :: "unicode \<Rightarrow> nat \<Rightarrow> nat option" where
  "parse_digits [] acc = Some acc"
| "parse_digits (c # cs) acc =
     (case digit_val c of None \<Rightarrow> None | Some d \<Rightarrow> parse_digits cs (10 * acc + d))"

definition parse_decimal :: "unicode \<Rightarrow> pydecimal option" where
  "parse_decimal u =
     (let neg = (u \<noteq> [] \<and> hd u = 45);
          body = (if u \<noteq> [] \<and> (hd u = 45 \<or> hd u = 43) then tl u else u);
          whole = takeWhile (\<lambda>c. c \<noteq> 46) body;
          frac = drop 1 (dropWhile (\<lambda>c. c \<noteq> 46) body)
      in if whole @ frac = [] then None
         else (case parse_digits (whole @ frac) 0 of
                 None \<Rightarrow> None
               | Some n \<Rightarrow> Some \<lparr>dec_neg = neg, dec_coeff = n, dec_places = length frac\<rparr>))"

definition decimal_of_int :: "int \<Rightarrow> pydecimal" where
  "decimal_of_int n = \<lparr>dec_neg = (n < 0), dec_coeff = nat \<bar>n\<bar>, dec_places = 0\<rparr>"

definition decimal_of_text :: "unicode \<Rightarrow> error + pyval" where
  "decimal_of_text u =
     (case parse_decimal u of None \<Rightarrow> Inl InvalidOperation | Some d \<Rightarrow> Inr (PDecimal d))"

fun Decimal :: "pyval \<Rightarrow> error + pyval" where
  "Decimal (PDecimal d) = Inr (PDecimal d)"
| "Decimal (PInt n) = Inr (PDecimal (decimal_of_int n))"
| "Decimal (PLong n) = Inr (PDecimal (decimal_of_int n))"
| "Decimal (PBool b) = Inr (PDecimal (decimal_of_int (if b then 1 else 0)))"
| "Decimal (PFloat m e) =
     Inr (PDecimal (if 0 \<le> e then decimal_of_int (m * 2 ^ nat e)
                    else \<lparr>dec_neg = (m < 0), dec_coeff = nat \<bar>m\<bar> * 5 ^ nat (- e),
                           dec_places = nat (- e)\<rparr>))"
| "Decimal (PUnicode u) = decimal_of_text u"
| "Decimal (PText u) = decimal_of_text u"
| "Decimal (PStr s) = (if is_ascii s then decimal_of_text (ascii_decode s) else Inl InvalidOperation)"
| "Decimal (PBlob s) = (if is_ascii s then decimal_of_text (ascii_decode s) else Inl InvalidOperation)"
| "Decimal v = Inl TypeError"

text \<open>The \<^verbatim>\<open>value_to_db_*\<close> methods of \<^verbatim>\<open>DatabaseOperations\<close>.\<close>

definition value_to_db_datetime :: "pyval \<Rightarrow> error + pyval" where
  "value_to_db_datetime v = make_timezone_naive v"

definition value_to_db_date :: "pyval \<Rightarrow> error + pyval" where
  "value_to_db_date v =
     (if v \<noteq> PNone then combine v (PTime \<lparr>t_usec = 0, t_tz = None\<rparr>) else Inr v)"

definition value_to_db_time :: "env \<Rightarrow> pyval \<Rightarrow> error + pyval" where
  "value_to_db_time e v =
     (if v \<noteq> PNone then
        (case make_timezone_naive v of
           Inl err \<Rightarrow> Inl err
         | Inr v' \<Rightarrow> combine (PDateTime (fromtimestamp e 0)) v')
      else Inr v)"

definition value_to_db_decimal :: "pyval \<Rightarrow> nat \<Rightarrow> nat \<Rightarrow> pyval" where
  "value_to_db_decimal v md dp =
     (case v of PDecimal d \<Rightarrow> PUnicode (decimal_to_string d md dp) | _ \<Rightarrow> v)"

text \<open>\<^verbatim>\<open>DatabaseOperations.value_for_db\<close>.\<close>

definition value_for_db :: "env \<Rightarrow> pyval \<Rightarrow> field \<Rightarrow> error + pyval" where
  "value_for_db e v f =
     (if v = PNone then Inr PNone
      else
        (case db_type f of
           Inl err \<Rightarrow> Inl err
         | Inr t \<Rightarrow>
             if t = ''string'' \<or> t = ''text'' then
               (case (if is_str v then decode e v else Inr v) of
                  Inl err \<Rightarrow> Inl err
                | Inr v' \<Rightarrow> if t = ''text'' then Text v' else Inr v')
             else if t = ''bytes'' then Blob v
             else if t = ''date'' then value_to_db_date v
             else if t = ''datetime'' then value_to_db_datetime v
             else if t = ''time'' then value_to_db_time e v
             else if t = ''decimal'' then Inr (value_to_db_decimal v (max_digits f) (decimal_places f))
             else Inr v))"

text \<open>The \<^verbatim>\<open>value_from_db_*\<close> methods. A raw integer (microseconds since the
  epoch) is first turned into a datetime.\<close>

fun int_of :: "pyval \<Rightarrow> int" where
  "int_of (PInt n) = n"
| "int_of (PLong n) = n"
| "int_of (PBool b) = (if b then 1 else 0)"
| "int_of v = 0"

definition attach_utc :: "env \<Rightarrow> pyval \<Rightarrow> error + pyval" where
  "attach_utc e v =
     (if v \<noteq> PNone \<and> USE_TZ e then
        (case is_naive v of
           Inl err \<Rightarrow> Inl err
         | Inr naive \<Rightarrow> if naive then replace_tzinfo_utc v else Inr v)
      else Inr v)"

definition value_from_db_datetime :: "env \<Rightarrow> pyval \<Rightarrow> error + pyval" where
  "value_from_db_datetime e v =
     attach_utc e (if is_int_or_long v then PDateTime (fromtimestamp e (int_of v)) else v)"

definition value_from_db_date :: "env \<Rightarrow> pyval \<Rightarrow> error + pyval" where
  "value_from_db_date e v =
     date_of (if is_int_or_long v then PDateTime (fromtimestamp e (int_of v)) else v)"

definition value_from_db_time :: "env \<Rightarrow> pyval \<Rightarrow> error + pyval" where
  "value_from_db_time e v =
     (case (if is_int_or_long v then time_of (PDateTime (fromtimestamp e (int_of v))) else Inr v) of
        Inl err \<Rightarrow> Inl err
      | Inr v1 \<Rightarrow>
          (case attach_utc e v1 of
             Inl err \<Rightarrow> Inl err
           | Inr v2 \<Rightarrow> time_of v2))"

definition value_from_db_decimal :: "pyval \<Rightarrow> error + pyval" where
  "value_from_db_decimal v = (if truthy v then Decimal v else Inr v)"

text \<open>\<^verbatim>\<open>DatabaseOperations.convert_values\<close>.\<close>

definition convert_values :: "env \<Rightarrow> pyval \<Rightarrow> field \<Rightarrow> error + pyval" where
  "convert_values e v f =
     (case super_convert_values e v f of
        Inl err \<Rightarrow> Inl err
      | Inr v' \<Rightarrow>
          (case db_type f of
             Inl err \<Rightarrow> Inl err
           | Inr t \<Rightarrow>
               if t = ''string'' \<and> is_str v' then decode e v'
               else if t = ''datetime'' then value_from_db_datetime e v'
               else if t = ''date'' then value_from_db_date e v'
               else if t = ''time'' then value_from_db_time e v'
               else if t = ''decimal'' then value_from_db_decimal v'
               else Inr v'))"

text \<open>Python's \<^verbatim>\<open>==\<close> on two values of one logical type: byte strings by their
  bytes, unicode strings by their code points, a byte string and a unicode string when
  the bytes are ASCII and spell the same text, integers and decimals by their number,
  two naive datetimes (or times) by their fields and two aware ones by their instant. A
  naive and an aware value are never equal (Python 2 raises a \<^verbatim>\<open>TypeError\<close>).\<close>

definition bytes_of :: "pyval \<Rightarrow> string" where
  "bytes_of v = (case v of PStr s \<Rightarrow> s | PBlob s \<Rightarrow> s | _ \<Rightarrow> [])"

definition text_of :: "pyval \<Rightarrow> unicode option" where
  "text_of v =
     (case v of
        PUnicode u \<Rightarrow> Some u
      | PText u \<Rightarrow> Some u
      | PStr s \<Rightarrow> (if is_ascii s then Some (ascii_decode s) else None)
      | PBlob s \<Rightarrow> (if is_ascii s then Some (ascii_decode s) else None)
      | _ \<Rightarrow> None)"

definition datetime_eq :: "pydatetime \<Rightarrow> pydatetime \<Rightarrow> bool" where
  "datetime_eq a b =
     (if d_tz a = None \<and> d_tz b = None then d_day a = d_day b \<and> d_usec a = d_usec b
      else if d_tz a \<noteq> None \<and> d_tz b \<noteq> None then datetime_instant a = datetime_instant b
      else False)"

definition time_eq :: "pytime \<Rightarrow> pytime \<Rightarrow> bool" where
  "time_eq a b =
     (case (t_tz a, t_tz b) of
        (None, None) \<Rightarrow> t_usec a = t_usec b
      | (Some x, Some y) \<Rightarrow>
          int (t_usec a) - x * usec_per_minute = int (t_usec b) - y * usec_per_minute
      | _ \<Rightarrow> False)"

definition decimal_signed :: "pydecimal \<Rightarrow> int" where
  "decimal_signed d = (if dec_neg d then - int (dec_coeff d) else int (dec_coeff d))"

definition decimal_eq :: "pydecimal \<Rightarrow> pydecimal \<Rightarrow> bool" where
  "decimal_eq a b =
     (decimal_signed a * 10 ^ dec_places b = decimal_signed b * 10 ^ dec_places a)"

definition py_eq :: "pyval \<Rightarrow> pyval \<Rightarrow> bool" where
  "py_eq a b =
     (if is_str a \<and> is_str b then bytes_of a = bytes_of b
      else if is_basestring a \<and> is_basestring b then
        (case text_of a of None \<Rightarrow> False | Some u \<Rightarrow> text_of b = Some u)
      else if is_int_or_long a \<and> is_int_or_long b then int_of a = int_of b
      else
        (case a of
           PDateTime x \<Rightarrow> (case b of PDateTime y \<Rightarrow> datetime_eq x y | _ \<Rightarrow> False)
         | PTime x \<Rightarrow> (case b of PTime y \<Rightarrow> time_eq x y | _ \<Rightarrow> False)
         | PDecimal x \<Rightarrow> (case b of PDecimal y \<Rightarrow> decimal_eq x y | _ \<Rightarrow> False)
         | _ \<Rightarrow> a = b))"

section \<open>Storage records and the unique-constraint cache\<close>

text \<open>A datastore entity: its kind, the \<^verbatim>\<open>id\<close> or \<^verbatim>\<open>name\<close> it was created with
  (neither for a key the store assigns) and its properties, a dictionary.
  \<^verbatim>\<open>entity.key().id_or_name()\<close> is the id, else the name, else \<^verbatim>\<open>None\<close>.\<close>

record entity =
  kind :: string
  key_id :: "pyval option"
  key_name :: "pyval option"
  props :: "string \<rightharpoonup> pyval"

definition id_or_name :: "entity \<Rightarrow> pyval" where
  "id_or_name ent =
     (case key_id ent of Some i \<Rightarrow> i
      | None \<Rightarrow> (case key_name ent of Some n \<Rightarrow> n | None \<Rightarrow> PNone))"

definition DEFAULT_CACHE_TIMEOUT :: nat where
  "DEFAULT_CACHE_TIMEOUT = 10"

text \<open>\<^verbatim>\<open>get_datastore_kind\<close>: the table of the first parent that has no parents and is
  not abstract, else the model's own.\<close>

definition get_datastore_kind :: "model \<Rightarrow> string" where
  "get_datastore_kind m =
     (case find (\<lambda>parent. parents parent = [] \<and> \<not> abstract parent) (parents m) of
        None \<Rightarrow> db_table m
      | Some parent \<Rightarrow> db_table parent)"

text \<open>\<^verbatim>\<open>get_uniques_from_model\<close>. \<^verbatim>\<open>_meta.get_field(y)\<close> finds a field by name and
  raises \<^verbatim>\<open>FieldDoesNotExist\<close> when there is none.\<close>

fun columns_of :: "model \<Rightarrow> string list \<Rightarrow> error + string list" where
  "columns_of m [] = Inr []"
| "columns_of m (y # ys) =
     (case find (\<lambda>f. name f = y) (meta_fields m) of
        None \<Rightarrow> Inl FieldDoesNotExist
      | Some f \<Rightarrow>
          (case columns_of m ys of Inl err \<Rightarrow> Inl err | Inr cs \<Rightarrow> Inr (column f # cs)))"

fun unique_together_columns :: "model \<Rightarrow> string list list \<Rightarrow> error + string list list" where
  "unique_together_columns m [] = Inr []"
| "unique_together_columns m (x # xs) =
     (case columns_of m x of
        Inl err \<Rightarrow> Inl err
      | Inr cs \<Rightarrow>
          (case unique_together_columns m xs of
             Inl err \<Rightarrow> Inl err
           | Inr rest \<Rightarrow> Inr (cs # rest)))"

definition get_uniques_from_model :: "model \<Rightarrow> error + string list list" where
  "get_uniques_from_model m =
     (case unique_together_columns m (unique_together m) of
        Inl err \<Rightarrow> Inl err
      | Inr uniques \<Rightarrow> Inr (uniques @ map (\<lambda>x. [column x]) (filter unique (meta_fields m))))"

text \<open>\<^verbatim>\<open>generate_unique_key\<close>: Python's \<^verbatim>\<open>sorted\<close> is a stable sort by the key,
  here the field name, compared as a byte string.\<close>

fun join :: "string \<Rightarrow> string list \<Rightarrow> string" where
  "join sep [] = []"
| "join sep [x] = x"
| "join sep (x # y # ys) = x @ sep @ join sep (y # ys)"

definition generate_unique_key :: "env \<Rightarrow> model \<Rightarrow> (string \<times> pyval) list \<Rightarrow> string" where
  "generate_unique_key e m fields_and_values =
     (let sorted_pairs = sort_key fst fields_and_values;
          key = app_label m @ ''.'' @ get_datastore_kind m @ ''|''
      in key @ join ''|'' (map (\<lambda>(f, v). f @ '':'' @ format_value e v) sorted_pairs))"

text \<open>The inner loop of \<^verbatim>\<open>cache_entity\<close> and \<^verbatim>\<open>uncache_entity\<close>, which builds
  \<^verbatim>\<open>key_parts\<close> for one combination; \<^verbatim>\<open>entity[x]\<close> raises \<^verbatim>\<open>KeyError\<close> for a
  missing property.\<close>

fun key_parts :: "model \<Rightarrow> entity \<Rightarrow> string list \<Rightarrow> error + (string \<times> pyval) list" where
  "key_parts m ent [] = Inr []"
| "key_parts m ent (x # xs) =
     (case (if x = column (pk m) \<and> props ent x = None then Inr (id_or_name ent)
            else (case props ent x of None \<Rightarrow> Inl KeyError | Some v \<Rightarrow> Inr v)) of
        Inl err \<Rightarrow> Inl err
      | Inr v \<Rightarrow>
          (case key_parts m ent xs of
             Inl err \<Rightarrow> Inl err
           | Inr rest \<Rightarrow> Inr ((x, v) # rest)))"

text \<open>The side cache receives operations; a function returns the operations it issued
  and the exception that stopped it, if any.\<close>

datatype cache_op = CacheSet string entity nat | CacheDelete string

text \<open>The first loop of \<^verbatim>\<open>cache_entity\<close> collects every key before anything is
  stored.\<close>

fun unique_keys :: "env \<Rightarrow> model \<Rightarrow> entity \<Rightarrow> string list list \<Rightarrow> error + string list" where
  "unique_keys e m ent [] = Inr []"
| "unique_keys e m ent (fs # rest) =
     (case key_parts m ent fs of
        Inl err \<Rightarrow> Inl err
      | Inr parts \<Rightarrow>
          (case unique_keys e m ent rest of
             Inl err \<Rightarrow> Inl err
           | Inr ks \<Rightarrow> Inr (generate_unique_key e m parts # ks)))"

definition cache_entity :: "env \<Rightarrow> model \<Rightarrow> entity \<Rightarrow> cache_op list \<times> error option" where
  "cache_entity e m ent =
     (case get_uniques_from_model m of
        Inl err \<Rightarrow> ([], Some err)
      | Inr unique_combinations \<Rightarrow>
          (case unique_keys e m ent unique_combinations of
             Inl err \<Rightarrow> ([], Some err)
           | Inr ks \<Rightarrow> (map (\<lambda>k. CacheSet k ent DEFAULT_CACHE_TIMEOUT) ks, None)))"

text \<open>The loop of \<^verbatim>\<open>uncache_entity\<close> deletes each key as soon as it is built.\<close>

fun uncache_loop :: "env \<Rightarrow> model \<Rightarrow> entity \<Rightarrow> string list list \<Rightarrow> cache_op list \<times> error option" where
  "uncache_loop e m ent [] = ([], None)"
| "uncache_loop e m ent (fs # rest) =
     (case key_parts m ent fs of
        Inl err \<Rightarrow> ([], Some err)
      | Inr parts \<Rightarrow>
          (case uncache_loop e m ent rest of
             (ops, r) \<Rightarrow> (CacheDelete (generate_unique_key e m parts) # ops, r)))"

definition uncache_entity :: "env \<Rightarrow> model \<Rightarrow> entity \<Rightarrow> cache_op list \<times> error option" where
  "uncache_entity e m ent =
     (case get_uniques_from_model m of
        Inl err \<Rightarrow> ([], Some err)
      | Inr unique_combinations \<Rightarrow> uncache_loop e m ent unique_combinations)"

text \<open>The side cache itself (\<^verbatim>\<open>set(key, value, ttl)\<close>, \<^verbatim>\<open>delete(key)\<close>): a map
  from keys to a value and its time to live.\<close>

fun apply_cache_op :: "cache_op \<Rightarrow> (string \<rightharpoonup> entity \<times> nat) \<Rightarrow> (string \<rightharpoonup> entity \<times> nat)" where
  "apply_cache_op (CacheSet k ent ttl) c = c(k \<mapsto> (ent, ttl))"
| "apply_cache_op (CacheDelete k) c = c(k := None)"

definition run_cache_ops :: "cache_op list \<Rightarrow> (string \<rightharpoonup> entity \<times> nat) \<Rightarrow> (string \<rightharpoonup> entity \<times> nat)" where
  "run_cache_ops ops c = fold apply_cache_op ops c"

definition keys_set :: "cache_op list \<Rightarrow> string set" where
  "keys_set ops = {k. \<exists>ent ttl. CacheSet k ent ttl \<in> set ops}"

definition keys_deleted :: "cache_op list \<Rightarrow> string set" where
  "keys_deleted ops = {k. CacheDelete k \<in> set ops}"

section \<open>Entity mapper\<close>

text \<open>\<^verbatim>\<open>get_prepared_db_value\<close>: the attribute itself for a raw write, else the field's
  \<^verbatim>\<open>pre_save\<close>; then \<^verbatim>\<open>get_db_prep_save\<close>; then the codec.\<close>

definition get_prepared_db_value :: "env \<Rightarrow> model_instance \<Rightarrow> field \<Rightarrow> bool \<Rightarrow> error + pyval" where
  "get_prepared_db_value e inst f raw =
     (case (if raw then (case attrs inst (attname f) of None \<Rightarrow> Inl AttributeError | Some v \<Rightarrow> Inr v)
            else pre_save e f inst (adding inst)) of
        Inl err \<Rightarrow> Inl err
      | Inr v \<Rightarrow>
          (case get_db_prep_save e f v of
             Inl err \<Rightarrow> Inl err
           | Inr v' \<Rightarrow> value_for_db e v' f))"

text \<open>The local function \<^verbatim>\<open>value_from_instance\<close>; it reads \<^verbatim>\<open>inheritance_root\<close>
  when it is called, that is after the parents have been walked.\<close>

definition value_from_instance ::
    "env \<Rightarrow> model \<Rightarrow> bool \<Rightarrow> model_instance \<Rightarrow> field \<Rightarrow> error + pyval \<times> bool" where
  "value_from_instance e inheritance_root raw inst f =
     (case get_prepared_db_value e inst f raw of
        Inl err \<Rightarrow> Inl err
      | Inr v \<Rightarrow>
          if (\<not> null f \<and> \<not> primary_key f) \<and> v = PNone then Inl IntegrityError
          else Inr (v, primary_key f \<and> model_label f = label inheritance_root))"

text \<open>The walk over \<^verbatim>\<open>get_parent_list()\<close>, taken when one of the parents is not
  abstract: it moves \<^verbatim>\<open>inheritance_root\<close> to a parent without parents, appends the
  parent's table to \<^verbatim>\<open>classes\<close> and the parent's fields to \<^verbatim>\<open>fields\<close>.\<close>

definition walk_parent :: "model \<Rightarrow> model \<times> string list \<times> field list \<Rightarrow> model \<times> string list \<times> field list" where
  "walk_parent parent st =
     (case st of (inheritance_root, classes, fs) \<Rightarrow>
        ((if parents parent = [] then parent else inheritance_root),
         classes @ [db_table parent],
         fs @ meta_fields parent))"

definition uses_inheritance :: "model \<Rightarrow> bool" where
  "uses_inheritance m = (filter (\<lambda>x. \<not> abstract x) (get_parent_list m) \<noteq> [])"

definition walk_parents :: "model \<Rightarrow> field list \<Rightarrow> model \<times> string list \<times> field list" where
  "walk_parents m fs =
     (if uses_inheritance m then fold walk_parent (get_parent_list m) (m, [db_table m], fs)
      else (m, [], fs))"

text \<open>The loop over the related objects: a related model that has this model among
  its non-abstract parents contributes the fields of the object found at its accessor,
  if there is one.\<close>

definition add_related :: "model \<Rightarrow> model_instance \<Rightarrow> model \<times> string \<Rightarrow> field list \<Rightarrow> field list" where
  "add_related m inst obj fs =
     (if label m \<in> set (map label (filter (\<lambda>x. \<not> abstract x) (parents (fst obj)))) then
        (case related inst (snd obj) of None \<Rightarrow> fs | Some related_fields \<Rightarrow> fs @ related_fields)
      else fs)"

definition all_fields :: "model \<Rightarrow> model_instance \<Rightarrow> field list \<Rightarrow> field list" where
  "all_fields m inst fs =
     fold (add_related m inst) (get_all_related_objects m) (snd (snd (walk_parents m fs)))"



text \<open>The loop over the fields. The inner loop adds the special index columns of one
  field; \<^verbatim>\<open>REQUIRES_SPECIAL_INDEXES[index]\<close> raises \<^verbatim>\<open>KeyError\<close> for an index that
  is not registered.\<close>

fun add_special_indexes ::
    "env \<Rightarrow> string \<Rightarrow> pyval \<Rightarrow> string list \<Rightarrow> (string \<rightharpoonup> pyval) \<Rightarrow> error + (string \<rightharpoonup> pyval)" where
  "add_special_indexes e col v [] field_values = Inr field_values"
| "add_special_indexes e col v (index # rest) field_values =
     (case REQUIRES_SPECIAL_INDEXES e index of
        None \<Rightarrow> Inl KeyError
      | Some indexer \<Rightarrow>
          add_special_indexes e col v rest
            (field_values(indexed_column_name indexer col \<mapsto> prep_value_for_database indexer v)))"

fun field_loop ::
    "env \<Rightarrow> model \<Rightarrow> model \<Rightarrow> bool \<Rightarrow> model_instance \<Rightarrow> field list \<Rightarrow>
     pyval \<times> (string \<rightharpoonup> pyval) \<Rightarrow> error + pyval \<times> (string \<rightharpoonup> pyval)" where
  "field_loop e m inheritance_root raw inst [] st = Inr st"
| "field_loop e m inheritance_root raw inst (f # fs) st =
     (case value_from_instance e inheritance_root raw inst f of
        Inl err \<Rightarrow> Inl err
      | Inr (v, is_primary_key) \<Rightarrow>
          (case add_special_indexes e (column f) v (special_indexes_for_column e m (column f))
                  (if is_primary_key then snd st else (snd st)(column f \<mapsto> v)) of
             Inl err \<Rightarrow> Inl err
           | Inr field_values \<Rightarrow>
               field_loop e m inheritance_root raw inst fs
                 ((if is_primary_key then v else fst st), field_values)))"

text \<open>The identity of the entity. A warning is what \<^verbatim>\<open>warnings.warn\<close> was called
  with.\<close>

datatype warning = RuntimeWarning string

definition truncation_warning :: warning where
  "truncation_warning =
     RuntimeWarning ''Truncating primary key that is over 500 characters. THIS IS AN ERROR IN YOUR PROGRAM.''"

definition entity_kwargs :: "pyval \<Rightarrow> error + (pyval option \<times> pyval option) \<times> warning list" where
  "entity_kwargs primary_key_value =
     (if truthy primary_key_value then
        (if is_int primary_key_value then Inr ((Some primary_key_value, None), [])
         else if is_basestring primary_key_value then
           (if py_len primary_key_value \<ge> 500
            then Inr ((None, Some (slice_to 500 primary_key_value)), [truncation_warning])
            else Inr ((None, Some primary_key_value), []))
         else Inl ValueError)
      else Inr ((None, None), []))"

text \<open>\<^verbatim>\<open>django_instance_to_entity\<close>. The result is the entity and the warnings
  emitted, or the exception raised.\<close>

definition django_instance_to_entity ::
    "env \<Rightarrow> model \<Rightarrow> field list \<Rightarrow> bool \<Rightarrow> model_instance \<Rightarrow> error + entity \<times> warning list" where
  "django_instance_to_entity e m fs raw inst =
     (let db_table' = get_datastore_kind m;
          inheritance_root = fst (walk_parents m fs);
          classes = fst (snd (walk_parents m fs))
      in case field_loop e m inheritance_root raw inst (all_fields m inst fs) (PNone, Map.empty) of
           Inl err \<Rightarrow> Inl err
         | Inr (primary_key_value, field_values) \<Rightarrow>
             (case entity_kwargs primary_key_value of
                Inl err \<Rightarrow> Inl err
              | Inr ((kid, kname), ws) \<Rightarrow>
                  Inr (\<lparr>kind = db_table', key_id = kid, key_name = kname,
                        props = (if uses_inheritance m
                                 then field_values(''class'' \<mapsto> PList (map PStr classes))
                                 else field_values)\<rparr>, ws)))"

text \<open>\<^verbatim>\<open>DatabaseOperations.prep_lookup_key\<close>: the key and the warnings emitted.
  \<^verbatim>\<open>left\<close> is sliced from the value that has already been cut.\<close>

definition prep_lookup_key :: "model \<Rightarrow> pyval \<Rightarrow> field \<Rightarrow> pyval \<times> warning list" where
  "prep_lookup_key m v f =
     (if is_basestring v then
        (let v' = slice_to 500 v;
             left = slice_from 500 v'
         in (PKey (get_datastore_kind m) v', if truthy left then [truncation_warning] else []))
      else (PKey (get_datastore_kind m) v, []))"

text \<open>The key of an entity, as \<^verbatim>\<open>entity.key()\<close> gives it.\<close>

definition entity_key :: "entity \<Rightarrow> pyval" where
  "entity_key ent = PKey (kind ent) (id_or_name ent)"

section \<open>Cursor\<close>

text \<open>The select command a cursor holds (the commands module is not among the source
  files; the spec, 4.4, gives its interface): \<^verbatim>\<open>results\<close> is a bare integer count
  for an aggregate query, else a forward-only sequence of entities that
  \<^verbatim>\<open>next_result()\<close> consumes, raising \<^verbatim>\<open>StopIteration\<close> at its end.\<close>

datatype query_results = Count int | Rows "entity list"

record select_command =
  results :: query_results
  queried_fields :: "string list"
  command_model :: model
  field_conversions :: "string \<rightharpoonup> (pyval \<Rightarrow> pyval)"

record cursor =
  last_select_command :: "select_command option"
  returned_ids :: "pyval list"

text \<open>A row is the tuple \<^verbatim>\<open>(count,)\<close> of an aggregate or the list of a record's
  values.\<close>

datatype row = RowTuple "pyval list" | RowList "pyval list"

text \<open>The loop of \<^verbatim>\<open>fetchone\<close> over the queried columns; it appends every key it
  meets to \<^verbatim>\<open>returned_ids\<close>.\<close>

fun build_row ::
    "env \<Rightarrow> select_command \<Rightarrow> entity \<Rightarrow> string list \<Rightarrow> pyval list \<Rightarrow> (error + pyval list) \<times> pyval list" where
  "build_row e cmd ent [] ids = (Inr [], ids)"
| "build_row e cmd ent (col # cols) ids =
     (if col = ''__key__'' then
        (case build_row e cmd ent cols (ids @ [entity_key ent]) of
           (Inl err, ids') \<Rightarrow> (Inl err, ids')
         | (Inr vs, ids') \<Rightarrow> (Inr (id_or_name ent # vs), ids'))
      else
        (case convert_values e (case props ent col of None \<Rightarrow> PNone | Some v \<Rightarrow> v)
                (get_field_from_column e (command_model cmd) col) of
           Inl err \<Rightarrow> (Inl err, ids)
         | Inr v \<Rightarrow>
             (case build_row e cmd ent cols ids of
                (Inl err, ids') \<Rightarrow> (Inl err, ids')
              | (Inr vs, ids') \<Rightarrow>
                  (Inr ((case field_conversions cmd col of None \<Rightarrow> v | Some conv \<Rightarrow> conv v) # vs),
                   ids'))))"

text \<open>\<^verbatim>\<open>Cursor.fetchone\<close>: the row (or \<^verbatim>\<open>None\<close>) or the exception, and the cursor
  afterwards. A cursor that has executed no select has no command to read.\<close>

definition fetchone :: "env \<Rightarrow> cursor \<Rightarrow> (error + row option) \<times> cursor" where
  "fetchone e c =
     (case last_select_command c of
        None \<Rightarrow> (Inl AttributeError, c)
      | Some cmd \<Rightarrow>
          (case results cmd of
             Count n \<Rightarrow> (Inr (Some (RowTuple [PInt n])), c)
           | Rows [] \<Rightarrow> (Inr None, c)
           | Rows (ent # rest) \<Rightarrow>
               (case build_row e cmd ent (queried_fields cmd) (returned_ids c) of
                  (r, ids) \<Rightarrow>
                    ((case r of Inl err \<Rightarrow> Inl err | Inr vs \<Rightarrow> Inr (Some (RowList vs))),
                     c\<lparr>last_select_command := Some (cmd\<lparr>results := Rows rest\<rparr>),
                       returned_ids := ids\<rparr>))))"

text \<open>\<^verbatim>\<open>Cursor.fetchmany\<close>: the \<^verbatim>\<open>while i < size\<close> loop, then the function.
  \<^verbatim>\<open>not results\<close> holds of the count 0; a sequence of results is an object, which
  is true.\<close>

function fetchmany_loop ::
    "env \<Rightarrow> int \<Rightarrow> int \<Rightarrow> cursor \<Rightarrow> row list \<Rightarrow> (error + row list) \<times> cursor" where
  "fetchmany_loop e sz i c result =
     (if i < sz then
        (case fetchone e c of
           (Inl err, c') \<Rightarrow> (Inl err, c')
         | (Inr None, c') \<Rightarrow> (Inr result, c')
         | (Inr (Some r), c') \<Rightarrow> fetchmany_loop e sz (i + 1) c' (result @ [r]))
      else (Inr result, c))"
  by pat_completeness auto
termination
  by (relation "measure (\<lambda>(e, sz, i, c, result). nat (sz - i))") auto

definition results_falsy :: "query_results \<Rightarrow> bool" where
  "results_falsy r = (case r of Count n \<Rightarrow> n = 0 | Rows ents \<Rightarrow> False)"

definition fetchmany :: "env \<Rightarrow> int \<Rightarrow> cursor \<Rightarrow> (error + row list) \<times> cursor" where
  "fetchmany e sz c =
     (case last_select_command c of
        None \<Rightarrow> (Inl AttributeError, c)
      | Some cmd \<Rightarrow>
          if results_falsy (results cmd) then (Inr [], c)
          else fetchmany_loop e sz 0 c [])"

section \<open>Example data\<close>

text \<open>An environment for the concrete instances below: no time zones, a
  \<^verbatim>\<open>pre_save\<close> that reads the attribute, framework conversions that change nothing,
  ASCII as the only text that decodes, and no special index.\<close>

definition example_env :: env where
  "example_env =
     \<lparr>USE_TZ = False,
      COMPLETE_FLUSH_WHILE_TESTING = None,
      sys_argv = [''manage.py'', ''runserver''],
      get_kinds = [],
      pre_save = (\<lambda>f inst add. case attrs inst (attname f) of None \<Rightarrow> Inl AttributeError | Some v \<Rightarrow> Inr v),
      get_db_prep_save = (\<lambda>f v. Inr v),
      super_convert_values = (\<lambda>v f. Inr v),
      decode_utf8 = (\<lambda>s. if is_ascii s then Some (ascii_decode s) else None),
      fromtimestamp = (\<lambda>us. \<lparr>d_day = us div usec_per_day, d_usec = nat (us mod usec_per_day), d_tz = None\<rparr>),
      special_indexes_for_column = (\<lambda>m col. []),
      REQUIRES_SPECIAL_INDEXES = Map.empty,
      format_value = (\<lambda>v. case v of PStr s \<Rightarrow> s | PBlob s \<Rightarrow> s | _ \<Rightarrow> ''None''),
      get_field_from_column = (\<lambda>m col. case find (\<lambda>f. column f = col) (meta_fields m) of None \<Rightarrow> pk m | Some f \<Rightarrow> f)\<rparr>"

text \<open>A model with an integer key and a unique, required text column, and an instance
  of it; a model keyed by a float column, and an instance of it.\<close>

definition person_id :: field where
  "person_id =
     \<lparr>name = ''id'', attname = ''id'', column = ''id'', null = False, primary_key = True,
      unique = True, model_label = ''app.Person'', class_name = ''AutoField'',
      max_digits = 0, decimal_places = 0\<rparr>"

definition person_email :: field where
  "person_email =
     \<lparr>name = ''email'', attname = ''email'', column = ''email'', null = False, primary_key = False,
      unique = True, model_label = ''app.Person'', class_name = ''CharField'',
      max_digits = 0, decimal_places = 0\<rparr>"

definition person_model :: model where
  "person_model =
     Model ''app.Person'' ''app'' ''app_person'' False [] [] [person_id, person_email] person_id [] []"

definition person :: "pyval \<Rightarrow> pyval \<Rightarrow> model_instance" where
  "person ident email =
     \<lparr>adding = True, attrs = [''id'' \<mapsto> ident, ''email'' \<mapsto> email], related = Map.empty\<rparr>"




text \<open>A cursor whose last select was a count.\<close>

definition count_cursor :: cursor where
  "count_cursor =
     \<lparr>last_select_command =
        Some \<lparr>results = Count 7, queried_fields = [], command_model = person_model,
              field_conversions = Map.empty\<rparr>,
      returned_ids = []\<rparr>"

text \<open>A two-level hierarchy: a concrete base model and a child of it, whose primary
  key is the link to its parent; and an instance of the child.\<close>

definition base_id :: field where
  "base_id =
     \<lparr>name = ''id'', attname = ''id'', column = ''id'', null = False, primary_key = True,
      unique = True, model_label = ''app.Base'', class_name = ''AutoField'',
      max_digits = 0, decimal_places = 0\<rparr>"

definition base_title :: field where
  "base_title =
     \<lparr>name = ''title'', attname = ''title'', column = ''title'', null = False, primary_key = False,
      unique = False, model_label = ''app.Base'', class_name = ''CharField'',
      max_digits = 0, decimal_places = 0\<rparr>"

definition base_model :: model where
  "base_model =
     Model ''app.Base'' ''app'' ''app_base'' False [] [] [base_id, base_title] base_id [] []"

definition child_ptr :: field where
  "child_ptr =
     \<lparr>name = ''base_ptr'', attname = ''base_ptr_id'', column = ''base_ptr_id'', null = False,
      primary_key = True, unique = True, model_label = ''app.Child'', class_name = ''OneToOneField'',
      max_digits = 0, decimal_places = 0\<rparr>"

definition child_note :: field where
  "child_note =
     \<lparr>name = ''note'', attname = ''note'', column = ''note'', null = False, primary_key = False,
      unique = False, model_label = ''app.Child'', class_name = ''CharField'',
      max_digits = 0, decimal_places = 0\<rparr>"

definition child_model :: model where
  "child_model =
     Model ''app.Child'' ''app'' ''app_child'' False [base_model] [base_model]
       [child_ptr, child_note] child_ptr [] []"

definition child :: model_instance where
  "child =
     \<lparr>adding = True,
      attrs = [''id'' \<mapsto> PInt 7, ''title'' \<mapsto> PUnicode [116], ''base_ptr_id'' \<mapsto> PInt 7,
               ''note'' \<mapsto> PUnicode [110]],
      related = Map.empty\<rparr>"

text \<open>The entity the mapper builds for that instance.\<close>

definition child_entity :: entity where
  "child_entity =
     \<lparr>kind = ''app_base'', key_id = Some (PInt 7), key_name = None,
      props = [''base_ptr_id'' \<mapsto> PInt 7, ''note'' \<mapsto> PUnicode [110], ''title'' \<mapsto> PUnicode [116],
               ''class'' \<mapsto> PList [PStr ''app_child'', PStr ''app_base'']]\<rparr>"

text \<open>An environment with one special index, a case-insensitive match registered for
  the columns \<^verbatim>\<open>id\<close> and \<^verbatim>\<open>email\<close>: it names its column by a prefix and stores
  the text in lower case.\<close>

definition iexact :: indexer where
  "iexact =
     \<lparr>indexed_column_name = (\<lambda>col. ''_idx_iexact_'' @ col),
      prep_value_for_database =
        (\<lambda>v. case v of
                PUnicode u \<Rightarrow> PUnicode (map (\<lambda>c. if 65 \<le> c \<and> c \<le> 90 then c + 32 else c) u)
              | _ \<Rightarrow> v)\<rparr>"

definition indexed_env :: env where
  "indexed_env =
     example_env
       \<lparr>special_indexes_for_column :=
          (\<lambda>m col. if col = ''id'' \<or> col = ''email'' then [''iexact''] else []),
        REQUIRES_SPECIAL_INDEXES := [''iexact'' \<mapsto> iexact]\<rparr>"

definition indexed_person_entity :: entity where
  "indexed_person_entity =
     \<lparr>kind = ''app_person'', key_id = Some (PInt 5), key_name = None,
      props = [''_idx_iexact_id'' \<mapsto> PInt 5, ''email'' \<mapsto> PUnicode [65],
               ''_idx_iexact_email'' \<mapsto> PUnicode [97]]\<rparr>"

text \<open>A model keyed by a user name, with a unique email and a pair of columns that is
  unique together, and the entity of one account as the store returns it after the
  insert: the key column is not among its properties.\<close>

definition account_username :: field where
  "account_username =
     \<lparr>name = ''username'', attname = ''username'', column = ''username'', null = False,
      primary_key = True, unique = True, model_label = ''app.Account'', class_name = ''CharField'',
      max_digits = 0, decimal_places = 0\<rparr>"

definition account_email :: field where
  "account_email =
     \<lparr>name = ''email'', attname = ''email'', column = ''email'', null = False,
      primary_key = False, unique = True, model_label = ''app.Account'', class_name = ''CharField'',
      max_digits = 0, decimal_places = 0\<rparr>"

definition account_last :: field where
  "account_last =
     \<lparr>name = ''last'', attname = ''last'', column = ''last'', null = False,
      primary_key = False, unique = False, model_label = ''app.Account'', class_name = ''CharField'',
      max_digits = 0, decimal_places = 0\<rparr>"

definition account_first :: field where
  "account_first =
     \<lparr>name = ''first'', attname = ''first'', column = ''first'', null = False,
      primary_key = False, unique = False, model_label = ''app.Account'', class_name = ''CharField'',
      max_digits = 0, decimal_places = 0\<rparr>"

definition account_model :: model where
  "account_model =
     Model ''app.Account'' ''app'' ''app_account'' False [] []
       [account_username, account_email, account_last, account_first] account_username
       [[''last'', ''first'']] []"

definition account_entity :: entity where
  "account_entity =
     \<lparr>kind = ''app_account'', key_id = None, key_name = Some (PStr ''bob''),
      props = [''email'' \<mapsto> PStr ''b@x.org'', ''last'' \<mapsto> PStr ''Ray'', ''first'' \<mapsto> PStr ''Bob'']\<rparr>"

text \<open>A deployment with time zones, a datetime column and a decimal column of five
  digits, two of them decimal places.\<close>

definition tz_env :: env where
  "tz_env = example_env\<lparr>USE_TZ := True\<rparr>"

definition stamp_field :: field where
  "stamp_field =
     \<lparr>name = ''stamp'', attname = ''stamp'', column = ''stamp'', null = False,
      primary_key = False, unique = False, model_label = ''app.Event'', class_name = ''DateTimeField'',
      max_digits = 0, decimal_places = 0\<rparr>"

definition price_field :: field where
  "price_field =
     \<lparr>name = ''price'', attname = ''price'', column = ''price'', null = False,
      primary_key = False, unique = False, model_label = ''app.Event'', class_name = ''DecimalField'',
      max_digits = 5, decimal_places = 2\<rparr>"

text \<open>An entity of the same kind written before the email column existed.\<close>

definition legacy_account_entity :: entity where
  "legacy_account_entity =
     \<lparr>kind = ''app_account'', key_id = None, key_name = Some (PStr ''bob''),
      props = [''last'' \<mapsto> PStr ''Ray'', ''first'' \<mapsto> PStr ''Bob'']\<rparr>"

text \<open>A model whose columns are not named like its fields: it is keyed by a user name,
  its email is unique and its last and first name are unique together. One entity of it
  as the store returns it after the insert, and one written before the email column
  existed.\<close>

definition profile_username :: field where
  "profile_username =
     \<lparr>name = ''username'', attname = ''username'', column = ''username'', null = False,
      primary_key = True, unique = True, model_label = ''app.Profile'', class_name = ''CharField'',
      max_digits = 0, decimal_places = 0\<rparr>"

definition profile_email :: field where
  "profile_email =
     \<lparr>name = ''email'', attname = ''email'', column = ''email_address'', null = False,
      primary_key = False, unique = True, model_label = ''app.Profile'', class_name = ''CharField'',
      max_digits = 0, decimal_places = 0\<rparr>"

definition profile_last :: field where
  "profile_last =
     \<lparr>name = ''last'', attname = ''last'', column = ''last_name'', null = False,
      primary_key = False, unique = False, model_label = ''app.Profile'', class_name = ''CharField'',
      max_digits = 0, decimal_places = 0\<rparr>"

definition profile_first :: field where
  "profile_first =
     \<lparr>name = ''first'', attname = ''first'', column = ''first_name'', null = False,
      primary_key = False, unique = False, model_label = ''app.Profile'', class_name = ''CharField'',
      max_digits = 0, decimal_places = 0\<rparr>"

definition profile_model :: model where
  "profile_model =
     Model ''app.Profile'' ''app'' ''app_profile'' False [] []
       [profile_username, profile_email, profile_last, profile_first] profile_username
       [[''last'', ''first'']] []"

definition profile_entity :: entity where
  "profile_entity =
     \<lparr>kind = ''app_profile'', key_id = None, key_name = Some (PStr ''bob''),
      props = [''email_address'' \<mapsto> PStr ''b@x.org'', ''last_name'' \<mapsto> PStr ''Ray'',
               ''first_name'' \<mapsto> PStr ''Bob'']\<rparr>"

definition old_profile_entity :: entity where
  "old_profile_entity =
     \<lparr>kind = ''app_profile'', key_id = None, key_name = Some (PStr ''bob''),
      props = [''last_name'' \<mapsto> PStr ''Ray'', ''first_name'' \<mapsto> PStr ''Bob'']\<rparr>"



section \<open>Notions used to state the properties\<close>

text \<open>The name of the derived column that special index \<open>i\<close> gives column \<open>col\<close>, and
  every column name the field loop writes for a list of fields: per field its own
  column followed by its derived columns.\<close>

definition derived_column :: "env \<Rightarrow> string \<Rightarrow> string \<Rightarrow> string" where
  "derived_column e i col =
     (case REQUIRES_SPECIAL_INDEXES e i of None \<Rightarrow> [] | Some indexer \<Rightarrow> indexed_column_name indexer col)"

definition written_columns :: "env \<Rightarrow> model \<Rightarrow> field list \<Rightarrow> string list" where
  "written_columns e m fs =
     concat (map (\<lambda>f. column f # map (\<lambda>i. derived_column e i (column f))
                                     (special_indexes_for_column e m (column f))) fs)"

text \<open>A value comes back from the codec: encoding it for the store and decoding the
  result both succeed, and the value decoded is equal, in Python's sense, to the value
  encoded.\<close>

definition round_trips :: "env \<Rightarrow> field \<Rightarrow> pyval \<Rightarrow> bool" where
  "round_trips e f v =
     (case value_for_db e v f of
        Inl err \<Rightarrow> False
      | Inr x \<Rightarrow> (case convert_values e x f of Inl err \<Rightarrow> False | Inr v' \<Rightarrow> py_eq v' v))"

text \<open>A decimal within a declared precision: it has no more places than declared, and
  at that many places its coefficient has no more digits than declared. A declaration
  has at least one digit and no more places than digits.\<close>

definition within_precision :: "pydecimal \<Rightarrow> nat \<Rightarrow> nat \<Rightarrow> bool" where
  "within_precision d md dp =
     (0 < md \<and> dp \<le> md \<and> dec_places d \<le> dp \<and> dec_coeff d * 10 ^ (dp - dec_places d) < 10 ^ md)"

section \<open>Facts about the example data\<close>

lemma person_fields: "all_fields person_model inst [person_id, person_email] = [person_id, person_email]"
  by (simp add: all_fields_def walk_parents_def uses_inheritance_def person_model_def)


lemma person_root: "fst (walk_parents person_model fs) = person_model"
  by (simp add: walk_parents_def uses_inheritance_def person_model_def)


lemma person_kind: "get_datastore_kind person_model = ''app_person'' \<and> \<not> uses_inheritance person_model"
  by (simp add: get_datastore_kind_def uses_inheritance_def person_model_def)



lemma person_id_value:
  "get_prepared_db_value example_env (person v w) person_id False = Inr v"
  by (simp add: get_prepared_db_value_def example_env_def person_def person_id_def value_for_db_def
      db_type_def data_types_def)


lemma example_no_specials: "special_indexes_for_column example_env m c = []"
  by (simp add: example_env_def)



lemma person_vfi_id:
  "value_from_instance example_env person_model False (person v w) person_id = Inr (v, True)"
  by (simp add: value_from_instance_def person_id_value) (simp add: person_id_def person_model_def)

lemma person_vfi_email:
  "value_from_instance example_env person_model False (person v (PUnicode u)) person_email
     = Inr (PUnicode u, False)"
  by (simp add: value_from_instance_def get_prepared_db_value_def example_env_def person_def
        person_email_def value_for_db_def db_type_def data_types_def)

lemma person_loop:
  "field_loop example_env person_model person_model False (person v (PUnicode u))
        [person_id, person_email] (PNone, Map.empty)
     = Inr (v, [''email'' \<mapsto> PUnicode u])"
  by (simp add: person_vfi_id person_vfi_email example_no_specials) (simp add: person_email_def)

lemma child_walk:
  "walk_parents child_model [child_ptr, child_note]
     = (base_model, [''app_child'', ''app_base''], [child_ptr, child_note, base_id, base_title])"
  by (simp add: walk_parents_def walk_parent_def uses_inheritance_def child_model_def base_model_def)

lemma child_fields:
  "all_fields child_model inst [child_ptr, child_note] = [child_ptr, child_note, base_id, base_title]"
  by (simp add: all_fields_def child_walk) (simp add: child_model_def)

lemma child_kind: "get_datastore_kind child_model = ''app_base'' \<and> uses_inheritance child_model"
  by (simp add: get_datastore_kind_def uses_inheritance_def child_model_def base_model_def)

lemma child_values:
  "value_from_instance example_env base_model False child child_ptr = Inr (PInt 7, False)"
  "value_from_instance example_env base_model False child child_note = Inr (PUnicode [110], False)"
  "value_from_instance example_env base_model False child base_id = Inr (PInt 7, True)"
  "value_from_instance example_env base_model False child base_title = Inr (PUnicode [116], False)"
  by (simp_all add: value_from_instance_def get_prepared_db_value_def example_env_def child_def
        child_ptr_def child_note_def base_id_def base_title_def base_model_def
        value_for_db_def db_type_def data_types_def)

lemma child_loop:
  "field_loop example_env child_model base_model False child
     [child_ptr, child_note, base_id, base_title] (PNone, Map.empty)
   = Inr (PInt 7, [''base_ptr_id'' \<mapsto> PInt 7, ''note'' \<mapsto> PUnicode [110], ''title'' \<mapsto> PUnicode [116]])"
  by (simp add: child_values example_no_specials)
     (simp add: child_ptr_def child_note_def base_title_def)

lemma child_result:
  "django_instance_to_entity example_env child_model [child_ptr, child_note] False child
     = Inr (child_entity, [])"
  by (simp add: django_instance_to_entity_def Let_def child_walk child_fields child_loop child_kind
        entity_kwargs_def child_entity_def del: field_loop.simps)

lemma indexed_values:
  "value_from_instance indexed_env person_model False (person (PInt 5) (PUnicode [65])) person_id
     = Inr (PInt 5, True)"
  "value_from_instance indexed_env person_model False (person (PInt 5) (PUnicode [65])) person_email
     = Inr (PUnicode [65], False)"
  "get_prepared_db_value indexed_env (person (PInt 5) (PUnicode [65])) person_email False
     = Inr (PUnicode [65])"
  by (simp_all add: value_from_instance_def get_prepared_db_value_def indexed_env_def example_env_def
        person_def person_id_def person_email_def person_model_def
        value_for_db_def db_type_def data_types_def)

lemma indexed_specials:
  "special_indexes_for_column indexed_env m ''id'' = [''iexact'']"
  "special_indexes_for_column indexed_env m ''email'' = [''iexact'']"
  "REQUIRES_SPECIAL_INDEXES indexed_env ''iexact'' = Some iexact"
  by (simp_all add: indexed_env_def)

lemma indexed_loop:
  "field_loop indexed_env person_model person_model False (person (PInt 5) (PUnicode [65]))
        [person_id, person_email] (PNone, Map.empty)
     = Inr (PInt 5, [''_idx_iexact_id'' \<mapsto> PInt 5, ''email'' \<mapsto> PUnicode [65],
                     ''_idx_iexact_email'' \<mapsto> PUnicode [97]])"
proof -
  have c: "column person_id = ''id''" "column person_email = ''email''"
    by (simp_all add: person_id_def person_email_def)
  show ?thesis
    by (simp add: indexed_values c indexed_specials) (simp add: iexact_def)
qed

lemma indexed_result:
  "django_instance_to_entity indexed_env person_model [person_id, person_email] False
       (person (PInt 5) (PUnicode [65]))
     = Inr (indexed_person_entity, [])"
  by (simp add: django_instance_to_entity_def Let_def person_fields person_root indexed_loop
        person_kind entity_kwargs_def indexed_person_entity_def del: field_loop.simps)

lemma indexed_written:
  "written_columns indexed_env person_model [person_id, person_email]
     = [''id'', ''_idx_iexact_id'', ''email'', ''_idx_iexact_email'']"
proof -
  have c: "column person_id = ''id''" "column person_email = ''email''"
    by (simp_all add: person_id_def person_email_def)
  show ?thesis
    by (simp add: written_columns_def c indexed_specials derived_column_def) (simp add: iexact_def)
qed

lemma account_uniques:
  "get_uniques_from_model account_model = Inr [[''last'', ''first''], [''username''], [''email'']]"
  by (simp add: get_uniques_from_model_def account_model_def account_username_def account_email_def
        account_last_def account_first_def)

lemma account_cache:
  "cache_entity example_env account_model account_entity
     = ([CacheSet ''app.app_account|first:Bob|last:Ray'' account_entity 10,
         CacheSet ''app.app_account|username:bob'' account_entity 10,
         CacheSet ''app.app_account|email:b@x.org'' account_entity 10], None)"
proof -
  have p: "pk account_model = account_username" "column account_username = ''username''"
          "app_label account_model = ''app''" "get_datastore_kind account_model = ''app_account''"
    by (simp_all add: account_model_def account_username_def get_datastore_kind_def)
  have k: "key_parts account_model account_entity [''last'', ''first'']
             = Inr [(''last'', PStr ''Ray''), (''first'', PStr ''Bob'')]"
          "key_parts account_model account_entity [''username''] = Inr [(''username'', PStr ''bob'')]"
          "key_parts account_model account_entity [''email''] = Inr [(''email'', PStr ''b@x.org'')]"
    by (simp_all add: p account_entity_def id_or_name_def)
  have f: "format_value example_env (PStr s) = s" for s by (simp add: example_env_def)
  show ?thesis
    by (simp add: cache_entity_def account_uniques k generate_unique_key_def p f DEFAULT_CACHE_TIMEOUT_def
          del: key_parts.simps)
qed

lemma account_key_parts:
  "key_parts account_model account_entity [''last'', ''first'']
     = Inr [(''last'', PStr ''Ray''), (''first'', PStr ''Bob'')]"
  "key_parts account_model account_entity [''username''] = Inr [(''username'', PStr ''bob'')]"
  "key_parts account_model account_entity [''email''] = Inr [(''email'', PStr ''b@x.org'')]"
  by (simp_all add: account_model_def account_username_def account_entity_def id_or_name_def)

lemma account_uncache:
  "uncache_entity example_env account_model account_entity
     = ([CacheDelete ''app.app_account|first:Bob|last:Ray'',
         CacheDelete ''app.app_account|username:bob'',
         CacheDelete ''app.app_account|email:b@x.org''], None)"
proof -
  have p: "app_label account_model = ''app''" "get_datastore_kind account_model = ''app_account''"
    by (simp_all add: account_model_def get_datastore_kind_def)
  have f: "format_value example_env (PStr s) = s" for s by (simp add: example_env_def)
  show ?thesis
    by (simp add: uncache_entity_def account_uniques account_key_parts generate_unique_key_def p f
          del: key_parts.simps)
qed

lemma example_super:
  "\<forall>x. super_convert_values example_env x f = Inr x"
  "\<forall>x. super_convert_values tz_env x f = Inr x"
  by (simp_all add: example_env_def tz_env_def)

lemma example_db_types:
  "db_type person_email = Inr ''string''"
  "db_type stamp_field = Inr ''datetime''"
  "db_type price_field = Inr ''decimal''"
  by (simp_all add: db_type_def data_types_def person_email_def stamp_field_def price_field_def)

lemma legacy_key_parts:
  "key_parts account_model legacy_account_entity [''last'', ''first'']
     = Inr [(''last'', PStr ''Ray''), (''first'', PStr ''Bob'')]"
  "key_parts account_model legacy_account_entity [''username''] = Inr [(''username'', PStr ''bob'')]"
  "key_parts account_model legacy_account_entity [''email''] = Inl KeyError"
  by (simp_all add: account_model_def account_username_def legacy_account_entity_def id_or_name_def)

lemma child_prepared:
  "get_prepared_db_value example_env child child_ptr False = Inr (PInt 7)"
  "get_prepared_db_value example_env child child_note False = Inr (PUnicode [110])"
  "get_prepared_db_value example_env child base_id False = Inr (PInt 7)"
  "get_prepared_db_value example_env child base_title False = Inr (PUnicode [116])"
  by (simp_all add: get_prepared_db_value_def example_env_def child_def
        child_ptr_def child_note_def base_id_def base_title_def
        value_for_db_def db_type_def data_types_def)

lemma child_written:
  "written_columns example_env child_model [child_ptr, child_note, base_id, base_title]
     = [''base_ptr_id'', ''note'', ''id'', ''title'']"
  by (simp add: written_columns_def example_no_specials)
     (simp add: child_ptr_def child_note_def base_id_def base_title_def)

lemma profile_uniques:
  "get_uniques_from_model profile_model
     = Inr [[''last_name'', ''first_name''], [''username''], [''email_address'']]"
  by (simp add: get_uniques_from_model_def profile_model_def profile_username_def profile_email_def
        profile_last_def profile_first_def)

lemma profile_facts:
  "pk profile_model = profile_username" "column profile_username = ''username''"
  "app_label profile_model = ''app''" "get_datastore_kind profile_model = ''app_profile''"
  "format_value example_env (PStr s) = s"
  by (simp_all add: profile_model_def profile_username_def get_datastore_kind_def example_env_def)

lemma profile_key_parts:
  "key_parts profile_model profile_entity [''last_name'', ''first_name'']
     = Inr [(''last_name'', PStr ''Ray''), (''first_name'', PStr ''Bob'')]"
  "key_parts profile_model profile_entity [''username''] = Inr [(''username'', PStr ''bob'')]"
  "key_parts profile_model profile_entity [''email_address''] = Inr [(''email_address'', PStr ''b@x.org'')]"
  "key_parts profile_model old_profile_entity [''last_name'', ''first_name'']
     = Inr [(''last_name'', PStr ''Ray''), (''first_name'', PStr ''Bob'')]"
  "key_parts profile_model old_profile_entity [''username''] = Inr [(''username'', PStr ''bob'')]"
  "key_parts profile_model old_profile_entity [''email_address''] = Inl KeyError"
  by (simp_all add: profile_facts profile_entity_def old_profile_entity_def id_or_name_def)

lemma profile_keys:
  "generate_unique_key example_env profile_model [(''last_name'', PStr ''Ray''), (''first_name'', PStr ''Bob'')]
     = ''app.app_profile|first_name:Bob|last_name:Ray''"
  "generate_unique_key example_env profile_model [(''username'', PStr ''bob'')]
     = ''app.app_profile|username:bob''"
  "generate_unique_key example_env profile_model [(''email_address'', PStr ''b@x.org'')]
     = ''app.app_profile|email_address:b@x.org''"
  by (simp_all add: generate_unique_key_def profile_facts)

lemma profile_cache:
  "cache_entity example_env profile_model profile_entity
     = ([CacheSet ''app.app_profile|first_name:Bob|last_name:Ray'' profile_entity 10,
         CacheSet ''app.app_profile|username:bob'' profile_entity 10,
         CacheSet ''app.app_profile|email_address:b@x.org'' profile_entity 10], None)"
  "cache_entity example_env profile_model old_profile_entity = ([], Some KeyError)"
  by (simp_all add: cache_entity_def profile_uniques profile_key_parts profile_keys
        DEFAULT_CACHE_TIMEOUT_def del: key_parts.simps)





section \<open>Flush: the complete-flush flag\<close>

text \<open>C8, as the code has it: \<^verbatim>\<open>sql_flush\<close> returns one \<^verbatim>\<open>FlushCommand\<close> per
  table. The tables are the store's kinds when the setting
  \<^verbatim>\<open>COMPLETE_FLUSH_WHILE_TESTING\<close> is true and \<^verbatim>\<open>"test"\<close> is one of the
  command-line arguments; in every other case they are the caller's tables.\<close>

theorem sql_flush_complete_flush_gated:
  "(truthy (case COMPLETE_FLUSH_WHILE_TESTING e of None \<Rightarrow> PBool False | Some v \<Rightarrow> v)
      \<and> ''test'' \<in> set (sys_argv e)
     \<longrightarrow> sql_flush e tables = map FlushCommand (get_kinds e))
   \<and> (\<not> (truthy (case COMPLETE_FLUSH_WHILE_TESTING e of None \<Rightarrow> PBool False | Some v \<Rightarrow> v)
          \<and> ''test'' \<in> set (sys_argv e))
     \<longrightarrow> sql_flush e tables = map FlushCommand tables)
   \<and> length (sql_flush e tables) =
       length (if truthy (case COMPLETE_FLUSH_WHILE_TESTING e of None \<Rightarrow> PBool False | Some v \<Rightarrow> v)
                  \<and> ''test'' \<in> set (sys_argv e) then get_kinds e else tables)"
  by (simp add: sql_flush_def)

text \<open>C8 at concrete inputs: with the flag and \<^verbatim>\<open>test\<close> on the command line the
  store's kinds are flushed, without the flag the caller's table.\<close>

theorem sql_flush_complete_flush_gated_witness:
  "sql_flush (example_env\<lparr>COMPLETE_FLUSH_WHILE_TESTING := Some (PBool True),
                 sys_argv := [''manage.py'', ''test''], get_kinds := [''stale'', ''person'']\<rparr>) [''person'']
     = [FlushCommand ''stale'', FlushCommand ''person'']
   \<and> sql_flush example_env [''person''] = [FlushCommand ''person'']"
  using sql_flush_complete_flush_gated
          [of "example_env\<lparr>COMPLETE_FLUSH_WHILE_TESTING := Some (PBool True),
                 sys_argv := [''manage.py'', ''test''], get_kinds := [''stale'', ''person'']\<rparr>" "[''person'']"]
        sql_flush_complete_flush_gated [of example_env "[''person'']"]
  by (simp add: example_env_def)

text \<open>C8 as stated fails: the flag is set, the command line has no \<^verbatim>\<open>test\<close>, and
  the caller's list is flushed, not the store's kinds.\<close>

theorem sql_flush_flag_alone_counterexample:
  "truthy (case COMPLETE_FLUSH_WHILE_TESTING
                  (example_env\<lparr>COMPLETE_FLUSH_WHILE_TESTING := Some (PBool True), get_kinds := [''stale'']\<rparr>)
           of None \<Rightarrow> PBool False | Some v \<Rightarrow> v)
   \<and> sql_flush (example_env\<lparr>COMPLETE_FLUSH_WHILE_TESTING := Some (PBool True), get_kinds := [''stale'']\<rparr>)
        [''person''] = [FlushCommand ''person'']
   \<and> sql_flush (example_env\<lparr>COMPLETE_FLUSH_WHILE_TESTING := Some (PBool True), get_kinds := [''stale'']\<rparr>)
        [''person'']
      \<noteq> map FlushCommand (get_kinds
            (example_env\<lparr>COMPLETE_FLUSH_WHILE_TESTING := Some (PBool True), get_kinds := [''stale'']\<rparr>))"
  by (simp add: sql_flush_def example_env_def)

section \<open>Oversized string keys\<close>

lemma slice_from_slice_to: "\<not> truthy (slice_from n (slice_to n v)) \<or> \<not> is_basestring v"
  by (cases v) simp_all

lemma prep_lookup_key_never_warns: "snd (prep_lookup_key m v f) = []"
  using slice_from_slice_to [of 500 v] by (auto simp: prep_lookup_key_def Let_def)

lemma prep_lookup_key_clamps:
  "is_basestring v \<Longrightarrow> fst (prep_lookup_key m v f) = PKey (get_datastore_kind m) (slice_to 500 v)"
  by (simp add: prep_lookup_key_def Let_def)

lemma entity_kwargs_oversized:
  "is_basestring v \<Longrightarrow> 500 < py_len v \<Longrightarrow>
   entity_kwargs v = Inr ((None, Some (slice_to 500 v)), [truncation_warning])"
  by (cases v) (auto simp: entity_kwargs_def)

text \<open>C2 at the key \<^verbatim>\<open>"x" * 600\<close>: the write path names the entity by the first 500
  characters and warns; the lookup path builds the key of the same 500 characters, so
  it finds the same record, but it emits no warning: \<^verbatim>\<open>left\<close> is sliced from the
  value that was cut the line before and is always empty.\<close>

theorem oversized_key_lookup_is_silent:
  "entity_kwargs (PStr (replicate 600 CHR ''x''))
     = Inr ((None, Some (PStr (replicate 500 CHR ''x''))), [truncation_warning])
   \<and> prep_lookup_key person_model (PStr (replicate 600 CHR ''x'')) person_id
     = (PKey ''app_person'' (PStr (replicate 500 CHR ''x'')), [])"
  by (simp add: entity_kwargs_def prep_lookup_key_def Let_def get_datastore_kind_def person_model_def)

section \<open>Entity mapper: what the field loop writes\<close>

lemma add_special_indexes_frame:
  "add_special_indexes e col v idxs fv = Inr fv' \<Longrightarrow>
   k \<notin> set (map (\<lambda>i. derived_column e i col) idxs) \<Longrightarrow> fv' k = fv k"
proof (induction idxs arbitrary: fv)
  case Nil
  then show ?case by simp
next
  case (Cons i rest)
  then obtain ix where ix: "REQUIRES_SPECIAL_INDEXES e i = Some ix"
    by (cases "REQUIRES_SPECIAL_INDEXES e i") auto
  with Cons.prems(1) have run:
    "add_special_indexes e col v rest
       (fv(indexed_column_name ix col \<mapsto> prep_value_for_database ix v)) = Inr fv'"
    by simp
  from Cons.prems(2) ix have ne: "k \<noteq> indexed_column_name ix col"
    and rest: "k \<notin> set (map (\<lambda>i. derived_column e i col) rest)"
    by (simp_all add: derived_column_def)
  from Cons.IH [OF run rest] ne show ?case by simp
qed

lemma add_special_indexes_value:
  "add_special_indexes e col v idxs fv = Inr fv' \<Longrightarrow>
   distinct (map (\<lambda>i. derived_column e i col) idxs) \<Longrightarrow>
   i \<in> set idxs \<Longrightarrow> REQUIRES_SPECIAL_INDEXES e i = Some ix \<Longrightarrow>
   fv' (indexed_column_name ix col) = Some (prep_value_for_database ix v)"
proof (induction idxs arbitrary: fv)
  case Nil
  then show ?case by simp
next
  case (Cons j rest)
  then obtain jx where jx: "REQUIRES_SPECIAL_INDEXES e j = Some jx"
    by (cases "REQUIRES_SPECIAL_INDEXES e j") auto
  with Cons.prems(1) have run:
    "add_special_indexes e col v rest
       (fv(indexed_column_name jx col \<mapsto> prep_value_for_database jx v)) = Inr fv'"
    by simp
  from Cons.prems(2) have d: "distinct (map (\<lambda>i. derived_column e i col) rest)"
    and fresh: "derived_column e j col \<notin> set (map (\<lambda>i. derived_column e i col) rest)"
    by simp_all
  show ?case
  proof (cases "i \<in> set rest")
    case True
    from Cons.IH [OF run d True Cons.prems(4)] show ?thesis .
  next
    case False
    with Cons.prems(3) have "i = j" by simp
    with jx Cons.prems(4) have same: "jx = ix" by simp
    from fresh jx same have "indexed_column_name ix col \<notin> set (map (\<lambda>i. derived_column e i col) rest)"
      by (simp add: derived_column_def)
    from add_special_indexes_frame [OF run this] same show ?thesis by simp
  qed
qed

lemma field_loop_frame:
  "field_loop e m root raw inst fs st = Inr (pkv, fv) \<Longrightarrow>
   k \<notin> set (written_columns e m fs) \<Longrightarrow> fv k = snd st k"
proof (induction fs arbitrary: st)
  case Nil
  then show ?case by simp
next
  case (Cons g gs)
  from Cons.prems(1) obtain v ispk where
    vi: "value_from_instance e root raw inst g = Inr (v, ispk)"
    by (cases "value_from_instance e root raw inst g") auto
  let ?fv0 = "if ispk then snd st else (snd st)(column g \<mapsto> v)"
  from Cons.prems(1) vi obtain fv1 where
    fv1: "add_special_indexes e (column g) v (special_indexes_for_column e m (column g)) ?fv0 = Inr fv1"
    by (cases "add_special_indexes e (column g) v (special_indexes_for_column e m (column g)) ?fv0") auto
  with Cons.prems(1) vi have
    rest: "field_loop e m root raw inst gs ((if ispk then v else fst st), fv1) = Inr (pkv, fv)"
    by simp
  from Cons.prems(2) have k1: "k \<noteq> column g"
    and k2: "k \<notin> set (map (\<lambda>i. derived_column e i (column g)) (special_indexes_for_column e m (column g)))"
    and k3: "k \<notin> set (written_columns e m gs)"
    by (simp_all add: written_columns_def)
  from Cons.IH [OF rest k3] have "fv k = fv1 k" by simp
  also from add_special_indexes_frame [OF fv1 k2] have "fv1 k = ?fv0 k" .
  also from k1 have "?fv0 k = snd st k" by simp
  finally show ?case .
qed

lemma field_loop_values:
  assumes "field_loop e m root raw inst fs st = Inr (pkv, fv)"
      and "distinct (written_columns e m fs)"
      and "f \<in> set fs"
      and "get_prepared_db_value e inst f raw = Inr v"
  shows "(\<not> (primary_key f \<and> model_label f = label root) \<longrightarrow> fv (column f) = Some v)
       \<and> (\<forall>i \<in> set (special_indexes_for_column e m (column f)). \<forall>ix.
             REQUIRES_SPECIAL_INDEXES e i = Some ix \<longrightarrow>
             fv (indexed_column_name ix (column f)) = Some (prep_value_for_database ix v))"
  using assms
proof (induction fs arbitrary: st)
  case Nil
  then show ?case by simp
next
  case (Cons g gs)
  let ?idx = "special_indexes_for_column e m (column g)"
  let ?names = "map (\<lambda>i. derived_column e i (column g)) ?idx"
  from Cons.prems(1) obtain w ispk where
    vi: "value_from_instance e root raw inst g = Inr (w, ispk)"
    by (cases "value_from_instance e root raw inst g") auto
  let ?fv0 = "if ispk then snd st else (snd st)(column g \<mapsto> w)"
  from Cons.prems(1) vi obtain fv1 where
    fv1: "add_special_indexes e (column g) w ?idx ?fv0 = Inr fv1"
    by (cases "add_special_indexes e (column g) w ?idx ?fv0") auto
  with Cons.prems(1) vi have
    rest: "field_loop e m root raw inst gs ((if ispk then w else fst st), fv1) = Inr (pkv, fv)"
    by simp
  from Cons.prems(2) have d1: "distinct (column g # ?names)"
    and d2: "distinct (written_columns e m gs)"
    and d3: "set (column g # ?names) \<inter> set (written_columns e m gs) = {}"
    by (simp_all add: written_columns_def)
  show ?case
  proof (cases "f \<in> set gs")
    case True
    from Cons.IH [OF rest d2 True Cons.prems(4)] show ?thesis .
  next
    case False
    with Cons.prems(3) have fg: "f = g" by simp
    with vi Cons.prems(4) have wv: "w = v"
      and ispk: "ispk = (primary_key f \<and> model_label f = label root)"
      by (auto simp: value_from_instance_def split: if_splits)
    have col: "\<not> ispk \<longrightarrow> fv (column g) = Some v"
    proof
      assume n: "\<not> ispk"
      from d3 have "column g \<notin> set (written_columns e m gs)" by auto
      from field_loop_frame [OF rest this] have "fv (column g) = fv1 (column g)" by simp
      also from d1 have "column g \<notin> set ?names" by simp
      from add_special_indexes_frame [OF fv1 this] have "fv1 (column g) = ?fv0 (column g)" .
      also from n wv have "?fv0 (column g) = Some v" by simp
      finally show "fv (column g) = Some v" .
    qed
    have idx: "\<forall>i \<in> set ?idx. \<forall>ix. REQUIRES_SPECIAL_INDEXES e i = Some ix \<longrightarrow>
                 fv (indexed_column_name ix (column g)) = Some (prep_value_for_database ix v)"
    proof (intro ballI allI impI)
      fix i ix assume i: "i \<in> set ?idx" and ix: "REQUIRES_SPECIAL_INDEXES e i = Some ix"
      from d1 have dn: "distinct ?names" by simp
      from i ix have "indexed_column_name ix (column g) \<in> set ?names"
        by (force simp: derived_column_def)
      with d3 have "indexed_column_name ix (column g) \<notin> set (written_columns e m gs)" by auto
      from field_loop_frame [OF rest this]
      have "fv (indexed_column_name ix (column g)) = fv1 (indexed_column_name ix (column g))" by simp
      also from add_special_indexes_value [OF fv1 dn i ix] wv
      have "fv1 (indexed_column_name ix (column g)) = Some (prep_value_for_database ix v)" by simp
      finally show "fv (indexed_column_name ix (column g)) = Some (prep_value_for_database ix v)" .
    qed
    from col idx fg ispk show ?thesis by simp
  qed
qed

lemma set_fold_add_related: "set fs \<subseteq> set (fold (add_related m inst) objs fs)"
proof (induction objs arbitrary: fs)
  case Nil
  then show ?case by simp
next
  case (Cons obj objs)
  have "set fs \<subseteq> set (add_related m inst obj fs)"
    by (auto simp: add_related_def split: option.splits)
  with Cons.IH [of "add_related m inst obj fs"] show ?case by auto
qed

section \<open>Entity mapper: constraint violations\<close>










section \<open>Cursor: aggregate results\<close>

lemma fetchmany_loop_aggregate:
  "last_select_command c = Some cmd \<Longrightarrow> results cmd = Count n \<Longrightarrow>
   fetchmany_loop e sz i c acc = (Inr (acc @ replicate (nat (sz - i)) (RowTuple [PInt n])), c)"
proof (induction e sz i c acc rule: fetchmany_loop.induct)
  case (1 e sz i c result)
  show ?case
  proof (cases "i < sz")
    case True
    have one: "fetchone e c = (Inr (Some (RowTuple [PInt n])), c)"
      using "1.prems" by (simp add: fetchone_def)
    have "nat (sz - i) = Suc (nat (sz - (i + 1)))" using True by simp
    then have "replicate (nat (sz - i)) (RowTuple [PInt n])
             = RowTuple [PInt n] # replicate (nat (sz - (i + 1))) (RowTuple [PInt n])"
      by simp
    with True one "1.IH" [OF True one [symmetric] refl refl] "1.prems" show ?thesis
      by (subst fetchmany_loop.simps) simp
  next
    case False
    then show ?thesis by (subst fetchmany_loop.simps) simp
  qed
qed

text \<open>C9: when the last select produced an integer count \<open>n\<close>, \<^verbatim>\<open>fetchone\<close> returns
  the tuple \<open>(n,)\<close>, never \<^verbatim>\<open>None\<close>, and leaves the cursor as it was, so every later
  call returns the same row; and for a count that is not 0, \<^verbatim>\<open>fetchmany(size)\<close>
  returns \<open>size\<close> copies of that row.\<close>

theorem aggregate_row_is_never_exhausted:
  assumes "last_select_command c = Some cmd" and "results cmd = Count n"
  shows "fetchone e c = (Inr (Some (RowTuple [PInt n])), c)
       \<and> (n \<noteq> 0 \<longrightarrow> fetchmany e sz c = (Inr (replicate (nat sz) (RowTuple [PInt n])), c))"
  using assms fetchmany_loop_aggregate [OF assms, of e sz 0 "[]"]
  by (simp add: fetchone_def fetchmany_def results_falsy_def)

text \<open>C9 at a cursor holding the count 7: three rows are fetched, and the cursor is
  unchanged.\<close>

theorem aggregate_row_is_never_exhausted_witness:
  "fetchone example_env count_cursor = (Inr (Some (RowTuple [PInt 7])), count_cursor)
   \<and> fetchmany example_env 3 count_cursor
       = (Inr [RowTuple [PInt 7], RowTuple [PInt 7], RowTuple [PInt 7]], count_cursor)"
proof -
  have a: "last_select_command count_cursor =
        Some \<lparr>results = Count 7, queried_fields = [], command_model = person_model,
              field_conversions = Map.empty\<rparr>"
    by (simp add: count_cursor_def)
  have b: "results \<lparr>results = Count 7, queried_fields = [], command_model = person_model,
              field_conversions = Map.empty\<rparr> = Count 7" by simp
  have "replicate (nat 3) (RowTuple [PInt 7]) = [RowTuple [PInt 7], RowTuple [PInt 7], RowTuple [PInt 7]]"
    by (simp add: numeral_3_eq_3)
  with aggregate_row_is_never_exhausted [OF a b, of example_env 3] show ?thesis by simp
qed

section \<open>Entity mapper: a falsy primary key\<close>

text \<open>C10: when the field loop ends with the primary key 0 or the empty string (byte or
  unicode), the mapper builds the entity with neither an id nor a name, as it does for
  the key \<^verbatim>\<open>None\<close>, and emits no warning and raises nothing.\<close>

theorem falsy_primary_key_is_absent:
  assumes "field_loop e m (fst (walk_parents m fs)) raw inst (all_fields m inst fs) (PNone, Map.empty)
             = Inr (pkv, fv)"
      and "pkv = PInt 0 \<or> pkv = PStr [] \<or> pkv = PUnicode []"
  shows "\<exists>ent. django_instance_to_entity e m fs raw inst = Inr (ent, [])
           \<and> key_id ent = None \<and> key_name ent = None \<and> id_or_name ent = PNone
           \<and> entity_kwargs pkv = entity_kwargs PNone"
  using assms by (auto simp: django_instance_to_entity_def Let_def entity_kwargs_def id_or_name_def)

text \<open>C10 at a concrete row: a person with the key 0.\<close>

theorem falsy_primary_key_is_absent_witness:
  "django_instance_to_entity example_env person_model [person_id, person_email] False
       (person (PInt 0) (PUnicode [97]))
     = Inr (\<lparr>kind = ''app_person'', key_id = None, key_name = None,
             props = [''email'' \<mapsto> PUnicode [97]]\<rparr>, [])"
  using falsy_primary_key_is_absent
          [of example_env person_model "[person_id, person_email]" False
              "person (PInt 0) (PUnicode [97])" "PInt 0" "[''email'' \<mapsto> PUnicode [97]]"]
  by (simp add: person_fields person_root person_loop django_instance_to_entity_def Let_def
        entity_kwargs_def person_kind del: field_loop.simps)

section \<open>Entity mapper: inheritance flattening\<close>

lemma add_special_indexes_dom:
  "add_special_indexes e col v idxs fv = Inr fv' \<Longrightarrow> dom fv \<subseteq> dom fv'"
proof (induction idxs arbitrary: fv)
  case Nil
  then show ?case by simp
next
  case (Cons i rest)
  then obtain ix where ix: "REQUIRES_SPECIAL_INDEXES e i = Some ix"
    by (cases "REQUIRES_SPECIAL_INDEXES e i") auto
  with Cons.prems have
    "add_special_indexes e col v rest
       (fv(indexed_column_name ix col \<mapsto> prep_value_for_database ix v)) = Inr fv'"
    by simp
  from Cons.IH [OF this] have
    "dom (fv(indexed_column_name ix col \<mapsto> prep_value_for_database ix v)) \<subseteq> dom fv'" .
  moreover have "dom fv \<subseteq> dom (fv(indexed_column_name ix col \<mapsto> prep_value_for_database ix v))"
    by (simp add: subset_insertI)
  ultimately show ?case by (rule order_trans [rotated])
qed

lemma field_loop_dom:
  "field_loop e m root raw inst fs st = Inr (pkv, fv) \<Longrightarrow>
   dom (snd st) \<subseteq> dom fv
   \<and> (\<forall>f \<in> set fs. \<not> (primary_key f \<and> model_label f = label root) \<longrightarrow> column f \<in> dom fv)"
proof (induction fs arbitrary: st)
  case Nil
  then show ?case by simp
next
  case (Cons g gs)
  from Cons.prems obtain v ispk where
    vi: "value_from_instance e root raw inst g = Inr (v, ispk)"
    by (cases "value_from_instance e root raw inst g") auto
  then have ispk: "ispk = (primary_key g \<and> model_label g = label root)"
    by (auto simp: value_from_instance_def split: sum.splits if_splits)
  let ?fv0 = "if ispk then snd st else (snd st)(column g \<mapsto> v)"
  from Cons.prems vi obtain fv1 where
    fv1: "add_special_indexes e (column g) v (special_indexes_for_column e m (column g)) ?fv0 = Inr fv1"
    by (cases "add_special_indexes e (column g) v (special_indexes_for_column e m (column g)) ?fv0") auto
  with Cons.prems vi have
    rest: "field_loop e m root raw inst gs ((if ispk then v else fst st), fv1) = Inr (pkv, fv)"
    by simp
  from Cons.IH [OF rest] have ih: "dom fv1 \<subseteq> dom fv"
    and ih2: "\<forall>f \<in> set gs. \<not> (primary_key f \<and> model_label f = label root) \<longrightarrow> column f \<in> dom fv"
    by simp_all
  from add_special_indexes_dom [OF fv1] have d: "dom ?fv0 \<subseteq> dom fv1" .
  have a: "dom (snd st) \<subseteq> dom ?fv0" by (simp add: subset_insertI)
  have b: "\<not> ispk \<longrightarrow> column g \<in> dom ?fv0" by simp
  have c: "dom ?fv0 \<subseteq> dom fv" using d ih by (rule order_trans)
  have "dom (snd st) \<subseteq> dom fv" using a c by (rule order_trans)
  moreover have "\<not> (primary_key g \<and> model_label g = label root) \<longrightarrow> column g \<in> dom fv"
    using b c ispk by blast
  ultimately show ?case using ih2 by simp
qed

lemma field_loop_primary_key:
  "field_loop e m root raw inst fs st = Inr (pkv, fv) \<Longrightarrow>
   \<forall>p \<in> set fs. primary_key p \<and> model_label p = label root \<longrightarrow>
      get_prepared_db_value e inst p raw = Inr v \<Longrightarrow>
   fst st = v \<or> (\<exists>p \<in> set fs. primary_key p \<and> model_label p = label root) \<Longrightarrow>
   pkv = v"
proof (induction fs arbitrary: st)
  case Nil
  then show ?case by simp
next
  case (Cons g gs)
  from Cons.prems(1) obtain w ispk where
    vi: "value_from_instance e root raw inst g = Inr (w, ispk)"
    by (cases "value_from_instance e root raw inst g") auto
  then have w: "get_prepared_db_value e inst g raw = Inr w"
    and ispk: "ispk = (primary_key g \<and> model_label g = label root)"
    by (auto simp: value_from_instance_def split: sum.splits if_splits)
  let ?fv0 = "if ispk then snd st else (snd st)(column g \<mapsto> w)"
  from Cons.prems(1) vi obtain fv1 where
    fv1: "add_special_indexes e (column g) w (special_indexes_for_column e m (column g)) ?fv0 = Inr fv1"
    by (cases "add_special_indexes e (column g) w (special_indexes_for_column e m (column g)) ?fv0") auto
  with Cons.prems(1) vi have
    rest: "field_loop e m root raw inst gs ((if ispk then w else fst st), fv1) = Inr (pkv, fv)"
    by simp
  from Cons.prems(2) have all: "\<forall>p \<in> set gs. primary_key p \<and> model_label p = label root \<longrightarrow>
      get_prepared_db_value e inst p raw = Inr v" by simp
  have "fst ((if ispk then w else fst st), fv1) = v
        \<or> (\<exists>p \<in> set gs. primary_key p \<and> model_label p = label root)"
  proof (cases ispk)
    case True
    with Cons.prems(2) ispk w have "w = v" by simp
    with True show ?thesis by simp
  next
    case False
    with Cons.prems(3) ispk show ?thesis by auto
  qed
  from Cons.IH [OF rest all this] show ?case .
qed

text \<open>C6, as the code has it. For a child model whose only parent is a concrete model
  without parents, every entity the mapper builds is of the kind of the base model (the
  table \<^verbatim>\<open>get_datastore_kind\<close> picks), and its \<^verbatim>\<open>class\<close> property is the list of the
  child's table followed by the base's table. Every field passed in and every field of
  the base, except the primary key of the base, has its column among the properties,
  and holds its encoded value there when the column names the mapper writes are
  pairwise distinct and none is \<^verbatim>\<open>class\<close>. The primary key of the base is not a
  column: its encoded value fixes the identity as for any key, a true \<^verbatim>\<open>int\<close> being
  the id, a non-empty string the name (cut to 500 characters, with the warning), and a
  false value (\<^verbatim>\<open>None\<close>, 0, the empty string) giving no identity at all.\<close>

theorem two_level_inheritance_flattening:
  assumes "parents m = [base]" and "get_parent_list m = [base]"
      and "parents base = []" and "\<not> abstract base"
      and "django_instance_to_entity e m fs raw inst = Inr (ent, ws)"
  shows "kind ent = db_table base
       \<and> props ent ''class'' = Some (PList [PStr (db_table m), PStr (db_table base)])
       \<and> (\<forall>f \<in> set (fs @ meta_fields base).
             \<not> (primary_key f \<and> model_label f = label base) \<longrightarrow> column f \<in> dom (props ent))
       \<and> (distinct (written_columns e m (all_fields m inst fs))
            \<and> ''class'' \<notin> set (written_columns e m (all_fields m inst fs)) \<longrightarrow>
           (\<forall>f \<in> set (fs @ meta_fields base). \<forall>v.
              get_prepared_db_value e inst f raw = Inr v
              \<and> \<not> (primary_key f \<and> model_label f = label base)
              \<longrightarrow> props ent (column f) = Some v))
       \<and> (\<forall>v. (\<exists>p \<in> set (all_fields m inst fs). primary_key p \<and> model_label p = label base)
              \<and> (\<forall>p \<in> set (all_fields m inst fs). primary_key p \<and> model_label p = label base
                    \<longrightarrow> get_prepared_db_value e inst p raw = Inr v)
            \<longrightarrow> (truthy v \<and> is_int v \<longrightarrow> key_id ent = Some v \<and> key_name ent = None \<and> ws = [])
              \<and> (truthy v \<and> \<not> is_int v \<longrightarrow>
                    is_basestring v \<and> key_id ent = None
                    \<and> key_name ent = Some (if 500 \<le> py_len v then slice_to 500 v else v)
                    \<and> ws = (if 500 \<le> py_len v then [truncation_warning] else []))
              \<and> (\<not> truthy v \<longrightarrow> key_id ent = None \<and> key_name ent = None \<and> ws = []))"
proof -
  have ui: "uses_inheritance m" using assms by (simp add: uses_inheritance_def)
  then have wp: "walk_parents m fs = (base, [db_table m, db_table base], fs @ meta_fields base)"
    using assms by (simp add: walk_parents_def walk_parent_def)
  have k: "get_datastore_kind m = db_table base"
    using assms by (simp add: get_datastore_kind_def)
  from assms(5) obtain pkv fv where
    loop: "field_loop e m base raw inst (all_fields m inst fs) (PNone, Map.empty) = Inr (pkv, fv)"
    by (auto simp: django_instance_to_entity_def Let_def wp split: sum.splits)
  with assms(5) ui k have ent:
    "kind ent = db_table base"
    "props ent = fv(''class'' \<mapsto> PList (map PStr [db_table m, db_table base]))"
    and kw: "entity_kwargs pkv = Inr ((key_id ent, key_name ent), ws)"
    by (auto simp: django_instance_to_entity_def Let_def wp split: sum.splits)
  have sub: "set (fs @ meta_fields base) \<subseteq> set (all_fields m inst fs)"
    using set_fold_add_related [of "fs @ meta_fields base" m inst "get_all_related_objects m"]
    by (simp add: all_fields_def wp)
  from field_loop_dom [OF loop] sub have present:
    "\<forall>f \<in> set (fs @ meta_fields base).
        \<not> (primary_key f \<and> model_label f = label base) \<longrightarrow> column f \<in> dom fv"
    by blast
  have vals: "props ent (column f) = Some v"
    if d: "distinct (written_columns e m (all_fields m inst fs))"
      and c: "''class'' \<notin> set (written_columns e m (all_fields m inst fs))"
      and f: "f \<in> set (fs @ meta_fields base)"
      and v: "get_prepared_db_value e inst f raw = Inr v"
      and n: "\<not> (primary_key f \<and> model_label f = label base)" for f v
  proof -
    from f sub have f': "f \<in> set (all_fields m inst fs)" by blast
    from field_loop_values [OF loop d f' v] n have "fv (column f) = Some v" by simp
    moreover from c f' have "column f \<noteq> ''class''" by (auto simp: written_columns_def)
    ultimately show ?thesis by (simp add: ent)
  qed
  have ident:
    "(truthy v \<and> is_int v \<longrightarrow> key_id ent = Some v \<and> key_name ent = None \<and> ws = [])
     \<and> (truthy v \<and> \<not> is_int v \<longrightarrow>
           is_basestring v \<and> key_id ent = None
           \<and> key_name ent = Some (if 500 \<le> py_len v then slice_to 500 v else v)
           \<and> ws = (if 500 \<le> py_len v then [truncation_warning] else []))
     \<and> (\<not> truthy v \<longrightarrow> key_id ent = None \<and> key_name ent = None \<and> ws = [])"
    if ex: "\<exists>p \<in> set (all_fields m inst fs). primary_key p \<and> model_label p = label base"
      and al: "\<forall>p \<in> set (all_fields m inst fs). primary_key p \<and> model_label p = label base
                    \<longrightarrow> get_prepared_db_value e inst p raw = Inr v" for v
  proof -
    from field_loop_primary_key [OF loop al] ex have "pkv = v" by simp
    with kw show ?thesis by (auto simp: entity_kwargs_def split: if_splits)
  qed
  from ent present vals ident show ?thesis by (simp add: ent)
qed

text \<open>C6 at the example hierarchy: the entity built for the child instance, its columns
  and its identity.\<close>

theorem two_level_inheritance_flattening_witness:
  "django_instance_to_entity example_env child_model [child_ptr, child_note] False child
     = Inr (child_entity, [])
   \<and> kind child_entity = ''app_base''
   \<and> props child_entity ''class'' = Some (PList [PStr ''app_child'', PStr ''app_base''])
   \<and> props child_entity ''base_ptr_id'' = Some (PInt 7)
   \<and> props child_entity ''note'' = Some (PUnicode [110])
   \<and> props child_entity ''title'' = Some (PUnicode [116])
   \<and> key_id child_entity = Some (PInt 7) \<and> key_name child_entity = None"
proof -
  have 1: "parents child_model = [base_model]" "get_parent_list child_model = [base_model]"
    by (simp_all add: child_model_def)
  have 2: "parents base_model = []" "\<not> abstract base_model"
    by (simp_all add: base_model_def)
  have l: "label base_model = ''app.Base''" "meta_fields base_model = [base_id, base_title]"
          "db_table base_model = ''app_base''" "db_table child_model = ''app_child''"
    by (simp_all add: base_model_def child_model_def)
  have f: "primary_key base_id \<and> model_label base_id = ''app.Base''"
          "\<not> primary_key base_title" "\<not> primary_key child_note"
          "model_label child_ptr \<noteq> ''app.Base''"
          "column child_ptr = ''base_ptr_id''" "column child_note = ''note''"
          "column base_title = ''title''"
    by (simp_all add: base_id_def base_title_def child_note_def child_ptr_def)
  from two_level_inheritance_flattening [OF 1 2 child_result] child_result
  show ?thesis
    by (simp add: child_fields child_written child_prepared l f)
qed

text \<open>C6 as stated fails at the example hierarchy: the entity is not of the child's kind
  and its \<^verbatim>\<open>class\<close> list is not the base's table followed by the child's.\<close>

theorem child_stored_under_base_kind_counterexample:
  "django_instance_to_entity example_env child_model [child_ptr, child_note] False child
     = Inr (child_entity, [])
   \<and> db_table child_model = ''app_child'' \<and> db_table base_model = ''app_base''
   \<and> kind child_entity \<noteq> db_table child_model
   \<and> props child_entity ''class'' \<noteq> Some (PList [PStr (db_table base_model), PStr (db_table child_model)])
   \<and> kind child_entity = db_table base_model
   \<and> props child_entity ''class'' = Some (PList [PStr (db_table child_model), PStr (db_table base_model)])"
  by (simp add: child_result) (simp add: child_entity_def child_model_def base_model_def)

section \<open>Entity mapper: special index columns\<close>

text \<open>C7, as the code has it. Let the mapper build an entity, and let the column names
  it writes (each field's column and derived columns) be pairwise distinct and
  different from \<^verbatim>\<open>class\<close>. Then for every field of the row and every special index
  registered for its column, the entity holds the derived column, named by
  \<^verbatim>\<open>indexed_column_name\<close>, with \<^verbatim>\<open>prep_value_for_database\<close> of the field's encoded
  value; and it holds the field's own column with the encoded value unless the field is
  the primary key of the inheritance root, whose value is the entity's identity and not
  a property.\<close>

theorem special_index_columns_attached:
  assumes "django_instance_to_entity e m fs raw inst = Inr (ent, ws)"
      and "distinct (written_columns e m (all_fields m inst fs))"
      and "''class'' \<notin> set (written_columns e m (all_fields m inst fs))"
      and "f \<in> set (all_fields m inst fs)"
      and "get_prepared_db_value e inst f raw = Inr v"
      and "i \<in> set (special_indexes_for_column e m (column f))"
      and "REQUIRES_SPECIAL_INDEXES e i = Some ix"
  shows "props ent (indexed_column_name ix (column f)) = Some (prep_value_for_database ix v)
       \<and> (\<not> (primary_key f \<and> model_label f = label (fst (walk_parents m fs)))
            \<longrightarrow> props ent (column f) = Some v)"
proof -
  from assms(1) obtain pkv fv where
    loop: "field_loop e m (fst (walk_parents m fs)) raw inst (all_fields m inst fs) (PNone, Map.empty)
             = Inr (pkv, fv)"
    by (auto simp: django_instance_to_entity_def Let_def split: sum.splits)
  with assms(1) have p: "props ent = fv \<or> (\<exists>x. props ent = fv(''class'' \<mapsto> x))"
    by (auto simp: django_instance_to_entity_def Let_def split: sum.splits if_splits)
  from assms(3,4) have c1: "column f \<noteq> ''class''"
    by (auto simp: written_columns_def)
  from assms(3,4,6,7) have c2: "indexed_column_name ix (column f) \<noteq> ''class''"
    by (force simp: written_columns_def derived_column_def)
  from field_loop_values [OF loop assms(2,4,5)] assms(6,7) have
    "fv (indexed_column_name ix (column f)) = Some (prep_value_for_database ix v)"
    "\<not> (primary_key f \<and> model_label f = label (fst (walk_parents m fs))) \<longrightarrow> fv (column f) = Some v"
    by blast+
  with p c1 c2 show ?thesis by auto
qed

text \<open>C7 at a person whose email has a case-insensitive index.\<close>

theorem special_index_columns_attached_witness:
  "django_instance_to_entity indexed_env person_model [person_id, person_email] False
       (person (PInt 5) (PUnicode [65]))
     = Inr (indexed_person_entity, [])
   \<and> props indexed_person_entity ''_idx_iexact_email'' = Some (PUnicode [97])
   \<and> props indexed_person_entity ''email'' = Some (PUnicode [65])"
proof -
  have d: "distinct (written_columns indexed_env person_model
             (all_fields person_model (person (PInt 5) (PUnicode [65])) [person_id, person_email]))"
    by (simp add: person_fields indexed_written)
  have c: "''class'' \<notin> set (written_columns indexed_env person_model
             (all_fields person_model (person (PInt 5) (PUnicode [65])) [person_id, person_email]))"
    by (simp add: person_fields indexed_written)
  have f: "person_email \<in> set (all_fields person_model (person (PInt 5) (PUnicode [65]))
             [person_id, person_email])"
    by (simp add: person_fields)
  have i: "''iexact'' \<in> set (special_indexes_for_column indexed_env person_model (column person_email))"
    by (simp add: person_email_def indexed_specials)
  from special_index_columns_attached
         [OF indexed_result d c f indexed_values(3) i indexed_specials(3)] indexed_result
  show ?thesis
    by (simp add: iexact_def person_email_def)
qed

text \<open>C7 as stated fails for a primary key with a special index: the derived column is
  attached, but the entity has no column of the key itself beside it.\<close>

theorem primary_key_index_without_column_counterexample:
  "django_instance_to_entity indexed_env person_model [person_id, person_email] False
       (person (PInt 5) (PUnicode [65]))
     = Inr (indexed_person_entity, [])
   \<and> person_id \<in> set [person_id, person_email]
   \<and> special_indexes_for_column indexed_env person_model (column person_id) = [''iexact'']
   \<and> props indexed_person_entity (indexed_column_name iexact (column person_id)) = Some (PInt 5)
   \<and> props indexed_person_entity (column person_id) = None"
  by (simp add: indexed_result)
     (simp add: indexed_person_entity_def iexact_def person_id_def indexed_specials)

section \<open>Unique-constraint cache\<close>

lemma columns_of_closed:
  "columns_of m ys =
     (if \<forall>y \<in> set ys. find (\<lambda>f. name f = y) (meta_fields m) \<noteq> None
      then Inr (map (\<lambda>y. column (the (find (\<lambda>f. name f = y) (meta_fields m)))) ys)
      else Inl FieldDoesNotExist)"
  by (induction ys) (auto split: option.splits)

lemma unique_together_columns_closed:
  "unique_together_columns m xs =
     (if \<forall>x \<in> set xs. \<forall>y \<in> set x. find (\<lambda>f. name f = y) (meta_fields m) \<noteq> None
      then Inr (map (map (\<lambda>y. column (the (find (\<lambda>f. name f = y) (meta_fields m))))) xs)
      else Inl FieldDoesNotExist)"
  by (induction xs) (auto simp: columns_of_closed)

lemma get_uniques_closed:
  "get_uniques_from_model m =
     (if \<forall>x \<in> set (unique_together m). \<forall>y \<in> set x. find (\<lambda>f. name f = y) (meta_fields m) \<noteq> None
      then Inr (map (map (\<lambda>y. column (the (find (\<lambda>f. name f = y) (meta_fields m)))))
                  (unique_together m)
                @ map (\<lambda>x. [column x]) (filter unique (meta_fields m)))
      else Inl FieldDoesNotExist)"
  by (simp add: get_uniques_from_model_def unique_together_columns_closed)

lemma key_parts_closed:
  "key_parts m ent fs =
     (if \<forall>x \<in> set fs. props ent x \<noteq> None \<or> x = column (pk m)
      then Inr (map (\<lambda>x. (x, case props ent x of Some v \<Rightarrow> v | None \<Rightarrow> id_or_name ent)) fs)
      else Inl KeyError)"
  by (induction fs) (auto split: option.splits)

lemma unique_keys_closed:
  "unique_keys e m ent combos =
     (if \<forall>fs \<in> set combos. \<forall>x \<in> set fs. props ent x \<noteq> None \<or> x = column (pk m)
      then Inr (map (\<lambda>fs. generate_unique_key e m
                    (map (\<lambda>x. (x, case props ent x of Some v \<Rightarrow> v | None \<Rightarrow> id_or_name ent)) fs))
                  combos)
      else Inl KeyError)"
  by (induction combos) (auto simp: key_parts_closed)

lemma filter_same_key:
  "distinct (map f xs) \<Longrightarrow> k \<in> set xs \<Longrightarrow> filter (\<lambda>x. f k = f x) xs = [k]"
proof (induction xs)
  case Nil
  then show ?case by simp
next
  case (Cons a xs)
  show ?case
  proof (cases "k = a")
    case True
    from Cons.prems(1) have "\<forall>x \<in> set xs. f a \<noteq> f x" by auto
    then have "filter (\<lambda>x. f a = f x) xs = []" by (simp add: filter_empty_conv)
    with True show ?thesis by simp
  next
    case False
    with Cons.prems have k: "k \<in> set xs" and d: "distinct (map f xs)" by simp_all
    from Cons.prems(1) have "f a \<notin> f ` set xs" by simp
    with k have "f k \<noteq> f a" by (metis imageI)
    with Cons.IH [OF d k] show ?thesis by simp
  qed
qed

lemma sort_key_permutation:
  assumes "distinct (map f xs)" and "mset ys = mset xs"
  shows "sort_key f ys = sort_key f xs"
proof (rule properties_for_sort_key [symmetric])
  show "mset (sort_key f ys) = mset xs" using assms(2) by simp
  show "sorted (map f (sort_key f ys))" by (rule sorted_sort_key)
  fix k assume k: "k \<in> set (sort_key f ys)"
  have "mset (map f (sort_key f ys)) = mset (map f xs)" using assms(2) by simp
  then have d: "distinct (map f (sort_key f ys))"
    using assms(1) by (metis mset_eq_imp_distinct_iff)
  from k assms(2) have kx: "k \<in> set xs" by (metis mset_eq_setD set_sort)
  from filter_same_key [OF d k] filter_same_key [OF assms(1) kx]
  show "filter (\<lambda>x. f k = f x) (sort_key f ys) = filter (\<lambda>x. f k = f x) xs" by simp
qed


lemma cache_entity_failed: "cache_entity e m ent = (ops, Some err) \<Longrightarrow> ops = []"
  by (auto simp: cache_entity_def split: sum.splits)

lemma run_cache_sets:
  "run_cache_ops (map (\<lambda>k. CacheSet k ent ttl) ks) c k
     = (if k \<in> set ks then Some (ent, ttl) else c k)"
  unfolding run_cache_ops_def
  by (induction ks arbitrary: c) auto

lemma run_cache_deletes:
  "run_cache_ops (map CacheDelete ks) c k = (if k \<in> set ks then None else c k)"
  unfolding run_cache_ops_def
  by (induction ks arbitrary: c) auto

lemma keys_set_sets: "keys_set (map (\<lambda>k. CacheSet k ent ttl) ks) = set ks"
  by (auto simp: keys_set_def)

lemma keys_deleted_deletes: "keys_deleted (map CacheDelete ks) = set ks"
  by (auto simp: keys_deleted_def)

lemma uncache_loop_keys:
  "unique_keys e m ent combos = Inr ks \<Longrightarrow> uncache_loop e m ent combos = (map CacheDelete ks, None)"
proof (induction combos arbitrary: ks)
  case Nil
  then show ?case by simp
next
  case (Cons fs rest)
  from Cons.prems obtain parts ks' where
    "key_parts m ent fs = Inr parts" "unique_keys e m ent rest = Inr ks'"
    "ks = generate_unique_key e m parts # ks'"
    by (auto split: sum.splits)
  with Cons.IH [of ks'] show ?case by simp
qed

lemma cache_entity_done:
  "cache_entity e m ent = (ops, None) \<Longrightarrow>
   \<exists>combos ks. get_uniques_from_model m = Inr combos \<and> unique_keys e m ent combos = Inr ks
      \<and> ops = map (\<lambda>k. CacheSet k ent DEFAULT_CACHE_TIMEOUT) ks"
  by (auto simp: cache_entity_def split: sum.splits)

text \<open>C4, as the code has it. The unique combinations of a model are its
  \<^verbatim>\<open>unique_together\<close> entries, each field name replaced by the column of the field of
  that name, followed by the column of every unique field on its own. The pairs built
  for a combination give each column the record's property of that name, or, for the
  primary-key column when the record has no such property, the record's
  \<^verbatim>\<open>id_or_name\<close>; a record that lacks any other column makes the function raise
  \<^verbatim>\<open>KeyError\<close>. The key is the application label, a dot, the kind and a bar, followed
  by the \<^verbatim>\<open>field:value\<close> pairs sorted by field name and joined by bars, so that it does
  not depend on the order in which the pairs are given. \<^verbatim>\<open>cache_entity\<close> stores the
  full record under the key of every combination with the time to live 10 when every
  column of every combination is found, and the cache then holds the record under each
  of these keys; when a column is missing it raises and stores nothing.\<close>

theorem unique_key_format_and_storage:
  "get_uniques_from_model m =
     (if \<forall>x \<in> set (unique_together m). \<forall>y \<in> set x. find (\<lambda>f. name f = y) (meta_fields m) \<noteq> None
      then Inr (map (map (\<lambda>y. column (the (find (\<lambda>f. name f = y) (meta_fields m)))))
                  (unique_together m)
                @ map (\<lambda>x. [column x]) (filter unique (meta_fields m)))
      else Inl FieldDoesNotExist)
   \<and> key_parts m ent fs =
       (if \<forall>x \<in> set fs. props ent x \<noteq> None \<or> x = column (pk m)
        then Inr (map (\<lambda>x. (x, case props ent x of Some v \<Rightarrow> v | None \<Rightarrow> id_or_name ent)) fs)
        else Inl KeyError)
   \<and> sorted (map fst (sort_key fst fields_and_values))
   \<and> mset (sort_key fst fields_and_values) = mset fields_and_values
   \<and> generate_unique_key e m fields_and_values
       = app_label m @ ''.'' @ get_datastore_kind m @ ''|''
         @ join ''|'' (map (\<lambda>(f, v). f @ '':'' @ format_value e v) (sort_key fst fields_and_values))
   \<and> (distinct (map fst fields_and_values) \<and> mset rearranged = mset fields_and_values
        \<longrightarrow> generate_unique_key e m rearranged = generate_unique_key e m fields_and_values)
   \<and> generate_unique_key e m [] = app_label m @ ''.'' @ get_datastore_kind m @ ''|''
   \<and> (f1 < f2 \<longrightarrow>
        generate_unique_key e m [(f2, v2), (f1, v1)]
          = app_label m @ ''.'' @ get_datastore_kind m @ ''|''
            @ f1 @ '':'' @ format_value e v1 @ ''|'' @ f2 @ '':'' @ format_value e v2)
   \<and> (get_uniques_from_model m = Inr combos \<longrightarrow>
        cache_entity e m ent =
          (if \<forall>fs \<in> set combos. \<forall>x \<in> set fs. props ent x \<noteq> None \<or> x = column (pk m)
           then (map (\<lambda>fs. CacheSet
                        (generate_unique_key e m
                           (map (\<lambda>x. (x, case props ent x of Some v \<Rightarrow> v | None \<Rightarrow> id_or_name ent)) fs))
                        ent 10) combos, None)
           else ([], Some KeyError)))
   \<and> (cache_entity e m ent = (ops, None) \<longrightarrow>
        list_all (\<lambda>op. \<exists>k. op = CacheSet k ent 10 \<and> run_cache_ops ops c k = Some (ent, 10)) ops)
   \<and> (cache_entity e m ent = (ops, Some err) \<longrightarrow> ops = [])"
proof (intro conjI impI)
  show "get_uniques_from_model m =
     (if \<forall>x \<in> set (unique_together m). \<forall>y \<in> set x. find (\<lambda>f. name f = y) (meta_fields m) \<noteq> None
      then Inr (map (map (\<lambda>y. column (the (find (\<lambda>f. name f = y) (meta_fields m)))))
                  (unique_together m)
                @ map (\<lambda>x. [column x]) (filter unique (meta_fields m)))
      else Inl FieldDoesNotExist)"
    by (rule get_uniques_closed)
  show "key_parts m ent fs =
       (if \<forall>x \<in> set fs. props ent x \<noteq> None \<or> x = column (pk m)
        then Inr (map (\<lambda>x. (x, case props ent x of Some v \<Rightarrow> v | None \<Rightarrow> id_or_name ent)) fs)
        else Inl KeyError)"
    by (rule key_parts_closed)
  show "sorted (map fst (sort_key fst fields_and_values))" by (rule sorted_sort_key)
  show "mset (sort_key fst fields_and_values) = mset fields_and_values" by simp
  show "generate_unique_key e m fields_and_values
       = app_label m @ ''.'' @ get_datastore_kind m @ ''|''
         @ join ''|'' (map (\<lambda>(f, v). f @ '':'' @ format_value e v) (sort_key fst fields_and_values))"
    by (simp add: generate_unique_key_def Let_def)
  show "generate_unique_key e m [] = app_label m @ ''.'' @ get_datastore_kind m @ ''|''"
    by (simp add: generate_unique_key_def)
next
  assume "distinct (map fst fields_and_values) \<and> mset rearranged = mset fields_and_values"
  then have "sort_key fst rearranged = sort_key fst fields_and_values"
    using sort_key_permutation by blast
  then show "generate_unique_key e m rearranged = generate_unique_key e m fields_and_values"
    by (simp add: generate_unique_key_def)
next
  assume "f1 < f2"
  then have "\<not> f2 \<le> f1" by simp
  then show "generate_unique_key e m [(f2, v2), (f1, v1)]
          = app_label m @ ''.'' @ get_datastore_kind m @ ''|''
            @ f1 @ '':'' @ format_value e v1 @ ''|'' @ f2 @ '':'' @ format_value e v2"
    by (simp add: generate_unique_key_def)
next
  assume "get_uniques_from_model m = Inr combos"
  then show "cache_entity e m ent =
          (if \<forall>fs \<in> set combos. \<forall>x \<in> set fs. props ent x \<noteq> None \<or> x = column (pk m)
           then (map (\<lambda>fs. CacheSet
                        (generate_unique_key e m
                           (map (\<lambda>x. (x, case props ent x of Some v \<Rightarrow> v | None \<Rightarrow> id_or_name ent)) fs))
                        ent 10) combos, None)
           else ([], Some KeyError))"
    by (simp add: cache_entity_def unique_keys_closed DEFAULT_CACHE_TIMEOUT_def comp_def)
next
  assume a: "cache_entity e m ent = (ops, None)"
  from cache_entity_done [OF a] obtain ks where
    ops: "ops = map (\<lambda>k. CacheSet k ent DEFAULT_CACHE_TIMEOUT) ks"
    by blast
  show "list_all (\<lambda>op. \<exists>k. op = CacheSet k ent 10 \<and> run_cache_ops ops c k = Some (ent, 10)) ops"
    unfolding ops by (simp add: list_all_iff run_cache_sets DEFAULT_CACHE_TIMEOUT_def)
next
  assume "cache_entity e m ent = (ops, Some err)"
  then show "ops = []" by (rule cache_entity_failed)
qed

text \<open>C4 at the example profile: its three unique combinations, by column, and their
  keys.\<close>

theorem unique_key_format_and_storage_witness:
  "get_uniques_from_model profile_model
     = Inr [[''last_name'', ''first_name''], [''username''], [''email_address'']]
   \<and> key_parts profile_model profile_entity [''username''] = Inr [(''username'', PStr ''bob'')]
   \<and> props profile_entity ''username'' = None
   \<and> id_or_name profile_entity = PStr ''bob''
   \<and> generate_unique_key example_env profile_model
        [(''last_name'', PStr ''Ray''), (''first_name'', PStr ''Bob'')]
       = ''app.app_profile|first_name:Bob|last_name:Ray''
   \<and> generate_unique_key example_env profile_model
        [(''first_name'', PStr ''Bob''), (''last_name'', PStr ''Ray'')]
       = ''app.app_profile|first_name:Bob|last_name:Ray''
   \<and> cache_entity example_env profile_model profile_entity
       = ([CacheSet ''app.app_profile|first_name:Bob|last_name:Ray'' profile_entity 10,
           CacheSet ''app.app_profile|username:bob'' profile_entity 10,
           CacheSet ''app.app_profile|email_address:b@x.org'' profile_entity 10], None)
   \<and> run_cache_ops [CacheSet ''app.app_profile|first_name:Bob|last_name:Ray'' profile_entity 10,
                     CacheSet ''app.app_profile|username:bob'' profile_entity 10,
                     CacheSet ''app.app_profile|email_address:b@x.org'' profile_entity 10] Map.empty
         ''app.app_profile|username:bob'' = Some (profile_entity, 10)"
proof -
  have i: "props profile_entity ''username'' = None" "id_or_name profile_entity = PStr ''bob''"
    by (simp_all add: profile_entity_def id_or_name_def)
  have lt: "''first_name'' < ''last_name''" by simp
  have d: "distinct (map fst [(''last_name'', PStr ''Ray''), (''first_name'', PStr ''Bob'')])
           \<and> mset [(''first_name'', PStr ''Bob''), (''last_name'', PStr ''Ray'')]
             = mset [(''last_name'', PStr ''Ray''), (''first_name'', PStr ''Bob'')]"
    by simp
  note t = unique_key_format_and_storage
         [of profile_model profile_entity "[''username'']"
             "[(''last_name'', PStr ''Ray''), (''first_name'', PStr ''Bob'')]" example_env
             "[(''first_name'', PStr ''Bob''), (''last_name'', PStr ''Ray'')]"
             "''first_name''" "''last_name''" "PStr ''Ray''" "PStr ''Bob''"
             "[[''last_name'', ''first_name''], [''username''], [''email_address'']]"
             "[CacheSet ''app.app_profile|first_name:Bob|last_name:Ray'' profile_entity 10,
               CacheSet ''app.app_profile|username:bob'' profile_entity 10,
               CacheSet ''app.app_profile|email_address:b@x.org'' profile_entity 10]" Map.empty]
  from t have k: "generate_unique_key example_env profile_model
        [(''last_name'', PStr ''Ray''), (''first_name'', PStr ''Bob'')]
       = ''app.app_profile|first_name:Bob|last_name:Ray''"
    using lt by (simp add: profile_facts)
  from t d have r: "generate_unique_key example_env profile_model
        [(''first_name'', PStr ''Bob''), (''last_name'', PStr ''Ray'')]
       = generate_unique_key example_env profile_model
        [(''last_name'', PStr ''Ray''), (''first_name'', PStr ''Bob'')]"
    by blast
  from t profile_cache(1) have s:
    "run_cache_ops [CacheSet ''app.app_profile|first_name:Bob|last_name:Ray'' profile_entity 10,
                     CacheSet ''app.app_profile|username:bob'' profile_entity 10,
                     CacheSet ''app.app_profile|email_address:b@x.org'' profile_entity 10] Map.empty
         ''app.app_profile|username:bob'' = Some (profile_entity, 10)"
    by simp
  from k r s i profile_uniques profile_key_parts(2) profile_cache(1) show ?thesis by simp
qed

text \<open>C4 as stated fails for the profile written before the email column existed: the
  key of its names is well formed, but the record is not stored under it, because
  \<^verbatim>\<open>cache_entity\<close> raises on the missing email before it stores anything.\<close>

theorem derivable_key_not_stored_counterexample:
  "get_uniques_from_model profile_model
     = Inr [[''last_name'', ''first_name''], [''username''], [''email_address'']]
   \<and> key_parts profile_model old_profile_entity [''last_name'', ''first_name'']
       = Inr [(''last_name'', PStr ''Ray''), (''first_name'', PStr ''Bob'')]
   \<and> generate_unique_key example_env profile_model
        [(''last_name'', PStr ''Ray''), (''first_name'', PStr ''Bob'')]
       = ''app.app_profile|first_name:Bob|last_name:Ray''
   \<and> cache_entity example_env profile_model old_profile_entity = ([], Some KeyError)
   \<and> run_cache_ops (fst (cache_entity example_env profile_model old_profile_entity)) Map.empty
         ''app.app_profile|first_name:Bob|last_name:Ray'' = None"
  by (simp add: profile_uniques profile_key_parts profile_keys profile_cache run_cache_ops_def
        del: key_parts.simps)

text \<open>C5, as the code has it. When \<^verbatim>\<open>cache_entity\<close> completes for a model and a record,
  \<^verbatim>\<open>uncache_entity\<close> completes too; the keys it deletes are exactly the keys
  \<^verbatim>\<open>cache_entity\<close> stores, it stores nothing and \<^verbatim>\<open>cache_entity\<close> deletes nothing;
  and in any cache, caching and then uncaching leaves none of these keys and every other
  key as it was.\<close>

theorem uncache_deletes_what_cache_stores:
  assumes "cache_entity e m ent = (ops, None)"
  shows "\<exists>dels. uncache_entity e m ent = (dels, None)
           \<and> keys_deleted dels = keys_set ops
           \<and> keys_set dels = {} \<and> keys_deleted ops = {}
           \<and> (\<forall>c k. run_cache_ops dels (run_cache_ops ops c) k
                      = (if k \<in> keys_set ops then None else c k))"
proof -
  from cache_entity_done [OF assms] obtain combos ks where
    u: "get_uniques_from_model m = Inr combos" and ks: "unique_keys e m ent combos = Inr ks"
    and ops: "ops = map (\<lambda>k. CacheSet k ent DEFAULT_CACHE_TIMEOUT) ks"
    by blast
  from u uncache_loop_keys [OF ks] have d: "uncache_entity e m ent = (map CacheDelete ks, None)"
    by (simp add: uncache_entity_def)
  have "keys_set (map CacheDelete ks) = {}" "keys_deleted ops = {}"
    unfolding ops by (auto simp: keys_set_def keys_deleted_def)
  with d show ?thesis
    unfolding ops by (simp add: keys_set_sets keys_deleted_deletes run_cache_sets run_cache_deletes)
qed

text \<open>C5 at the example account.\<close>

theorem uncache_deletes_what_cache_stores_witness:
  "cache_entity example_env account_model account_entity
     = ([CacheSet ''app.app_account|first:Bob|last:Ray'' account_entity 10,
         CacheSet ''app.app_account|username:bob'' account_entity 10,
         CacheSet ''app.app_account|email:b@x.org'' account_entity 10], None)
   \<and> uncache_entity example_env account_model account_entity
     = ([CacheDelete ''app.app_account|first:Bob|last:Ray'',
         CacheDelete ''app.app_account|username:bob'',
         CacheDelete ''app.app_account|email:b@x.org''], None)
   \<and> keys_deleted [CacheDelete ''app.app_account|first:Bob|last:Ray'',
                    CacheDelete ''app.app_account|username:bob'',
                    CacheDelete ''app.app_account|email:b@x.org'']
     = keys_set [CacheSet ''app.app_account|first:Bob|last:Ray'' account_entity 10,
                 CacheSet ''app.app_account|username:bob'' account_entity 10,
                 CacheSet ''app.app_account|email:b@x.org'' account_entity 10]"
  using uncache_deletes_what_cache_stores [OF account_cache] account_cache account_uncache
  by auto

text \<open>C5 as stated fails for a record that lacks a unique column: \<^verbatim>\<open>cache_entity\<close>
  raises before it stores anything, while \<^verbatim>\<open>uncache_entity\<close>, which deletes inside its
  loop, has deleted the keys of the combinations before the one that raises.\<close>

theorem uncache_after_failed_cache_counterexample:
  "cache_entity example_env account_model legacy_account_entity = ([], Some KeyError)
   \<and> uncache_entity example_env account_model legacy_account_entity
       = ([CacheDelete ''app.app_account|first:Bob|last:Ray'',
           CacheDelete ''app.app_account|username:bob''], Some KeyError)
   \<and> keys_set ([] :: cache_op list) = {}
   \<and> ''app.app_account|username:bob''
       \<in> keys_deleted [CacheDelete ''app.app_account|first:Bob|last:Ray'',
                       CacheDelete ''app.app_account|username:bob'']"
proof -
  have p: "app_label account_model = ''app''" "get_datastore_kind account_model = ''app_account''"
    by (simp_all add: account_model_def get_datastore_kind_def)
  have f: "format_value example_env (PStr s) = s" for s by (simp add: example_env_def)
  show ?thesis
    by (simp add: cache_entity_def uncache_entity_def account_uniques legacy_key_parts
          generate_unique_key_def p f keys_set_def keys_deleted_def del: key_parts.simps)
qed

section \<open>Value codec: round trip\<close>

lemma length_fixed_digits: "length (fixed_digits w n) = w"
  by (induction w arbitrary: n) simp_all

lemma fixed_digits_are_digits: "c \<in> set (fixed_digits w n) \<Longrightarrow> 48 \<le> c \<and> c \<le> 57"
proof (induction w arbitrary: n)
  case 0
  then show ?case by simp
next
  case (Suc w)
  have "n mod 10 < 10" by simp
  with Suc show ?case by auto
qed

lemma parse_digits_append:
  "parse_digits (xs @ ys) acc =
     (case parse_digits xs acc of None \<Rightarrow> None | Some a \<Rightarrow> parse_digits ys a)"
  by (induction xs arbitrary: acc) (auto split: option.splits)

lemma parse_fixed_digits:
  "parse_digits (fixed_digits w n) acc = Some (acc * 10 ^ w + n mod 10 ^ w)"
proof (induction w arbitrary: n acc)
  case 0
  then show ?case by simp
next
  case (Suc w)
  have d: "digit_val (48 + n mod 10) = Some (n mod 10)"
    by (simp add: digit_val_def)
  have m: "n mod (10 * 10 ^ w) = 10 * (n div 10 mod 10 ^ w) + n mod 10"
    by (rule mod_mult2_eq)
  show ?case
    by (simp add: parse_digits_append Suc.IH d m algebra_simps)
qed

lemma takeWhile_digits:
  "takeWhile (\<lambda>c. c \<noteq> 46) (fixed_digits w n @ 46 # rest) = fixed_digits w n"
  "dropWhile (\<lambda>c. c \<noteq> 46) (fixed_digits w n @ 46 # rest) = 46 # rest"
  "takeWhile (\<lambda>c. c \<noteq> 46) (fixed_digits w n) = fixed_digits w n"
  "dropWhile (\<lambda>c. c \<noteq> 46) (fixed_digits w n) = []"
proof -
  have ne: "\<forall>c \<in> set (fixed_digits w n). c \<noteq> 46"
    using fixed_digits_are_digits [of _ w n] by fastforce
  then show "takeWhile (\<lambda>c. c \<noteq> 46) (fixed_digits w n @ 46 # rest) = fixed_digits w n"
    by simp
  from ne show "dropWhile (\<lambda>c. c \<noteq> 46) (fixed_digits w n @ 46 # rest) = 46 # rest"
    by simp
  from ne show "takeWhile (\<lambda>c. c \<noteq> 46) (fixed_digits w n) = fixed_digits w n"
    by simp
  from ne show "dropWhile (\<lambda>c. c \<noteq> 46) (fixed_digits w n) = []"
    by simp
qed

lemma hd_fixed_digits: "0 < w \<Longrightarrow> 48 \<le> hd (fixed_digits w n) \<and> hd (fixed_digits w n) \<le> 57"
proof -
  assume "0 < w"
  then have "fixed_digits w n \<noteq> []" using length_fixed_digits [of w n] by auto
  then have "hd (fixed_digits w n) \<in> set (fixed_digits w n)" by simp
  then show ?thesis by (rule fixed_digits_are_digits)
qed

text \<open>The digits written for a value within the precision, without the sign, read back
  as the value.\<close>

lemma parse_body:
  assumes "0 < md" "dp \<le> md" "q < 10 ^ md"
  defines "body \<equiv> fixed_digits (md - dp) (q div 10 ^ dp)
                   @ (if dp = 0 then [] else 46 # fixed_digits dp (q mod 10 ^ dp))"
  shows "body \<noteq> []" "hd body \<noteq> 45" "hd body \<noteq> 43"
    and "takeWhile (\<lambda>c. c \<noteq> 46) body @ drop 1 (dropWhile (\<lambda>c. c \<noteq> 46) body) \<noteq> []"
    and "parse_digits (takeWhile (\<lambda>c. c \<noteq> 46) body @ drop 1 (dropWhile (\<lambda>c. c \<noteq> 46) body)) 0 = Some q"
    and "length (drop 1 (dropWhile (\<lambda>c. c \<noteq> 46) body)) = dp"
proof -
  let ?W = "fixed_digits (md - dp) (q div 10 ^ dp)"
  let ?F = "fixed_digits dp (q mod 10 ^ dp)"
  have tw: "takeWhile (\<lambda>c. c \<noteq> 46) body = ?W"
    by (simp add: body_def takeWhile_digits)
  have dw: "drop 1 (dropWhile (\<lambda>c. c \<noteq> 46) body) = ?F"
    by (simp add: body_def takeWhile_digits)
  have len: "length (?W @ ?F) = md" using assms(2) by (simp add: length_fixed_digits)
  with assms(1) have ne: "?W @ ?F \<noteq> []" by auto
  show "body \<noteq> []" using ne by (auto simp: body_def)
  have hd: "hd body \<noteq> 45 \<and> hd body \<noteq> 43"
  proof (cases "md - dp = 0")
    case True
    with assms(1,2) have "dp \<noteq> 0" by simp
    with True show ?thesis by (simp add: body_def)
  next
    case False
    then have "?W \<noteq> []" using length_fixed_digits [of "md - dp" "q div 10 ^ dp"] by auto
    then have "hd body = hd ?W" by (simp add: body_def)
    with hd_fixed_digits [of "md - dp" "q div 10 ^ dp"] False show ?thesis by simp
  qed
  then show "hd body \<noteq> 45" "hd body \<noteq> 43" by simp_all
  show "takeWhile (\<lambda>c. c \<noteq> 46) body @ drop 1 (dropWhile (\<lambda>c. c \<noteq> 46) body) \<noteq> []"
    unfolding tw dw by (rule ne)
  have small: "q div 10 ^ dp < 10 ^ (md - dp)"
  proof -
    have "(10::nat) ^ md = 10 ^ dp * 10 ^ (md - dp)"
      using assms(2) by (simp flip: power_add)
    with assms(3) show ?thesis by (simp add: less_mult_imp_div_less mult.commute)
  qed
  have "parse_digits (?W @ ?F) 0 = Some (q div 10 ^ dp * 10 ^ dp + q mod 10 ^ dp)"
    using small by (simp add: parse_digits_append parse_fixed_digits)
  also have "q div 10 ^ dp * 10 ^ dp + q mod 10 ^ dp = q"
    by (rule div_mult_mod_eq)
  finally show "parse_digits (takeWhile (\<lambda>c. c \<noteq> 46) body @ drop 1 (dropWhile (\<lambda>c. c \<noteq> 46) body)) 0 = Some q"
    unfolding tw dw .
  show "length (drop 1 (dropWhile (\<lambda>c. c \<noteq> 46) body)) = dp"
    by (simp only: dw length_fixed_digits)
qed

lemma parse_decimal_to_string:
  assumes "within_precision d md dp"
  shows "decimal_to_string d md dp \<noteq> []"
    and "parse_decimal (decimal_to_string d md dp)
           = Some \<lparr>dec_neg = dec_neg d, dec_coeff = quantize d dp, dec_places = dp\<rparr>"
proof -
  let ?q = "quantize d dp"
  let ?body = "fixed_digits (md - dp) (?q div 10 ^ dp)
                   @ (if dp = 0 then [] else 46 # fixed_digits dp (?q mod 10 ^ dp))"
  from assms have md: "0 < md" and dp: "dp \<le> md" and q: "?q < 10 ^ md"
    by (simp_all add: within_precision_def quantize_def)
  note b = parse_body [OF md dp q]
  have s: "decimal_to_string d md dp = (if dec_neg d then [45] else []) @ ?body"
    by (simp add: decimal_to_string_def Let_def)
  show "decimal_to_string d md dp \<noteq> []" using b(1) by (simp add: s)
  show "parse_decimal (decimal_to_string d md dp)
           = Some \<lparr>dec_neg = dec_neg d, dec_coeff = quantize d dp, dec_places = dp\<rparr>"
  proof (cases "dec_neg d")
    case True
    then have u: "decimal_to_string d md dp = 45 # ?body" by (simp add: s)
    show ?thesis
      unfolding parse_decimal_def u using b(4,5,6) True by (simp add: Let_def)
  next
    case False
    then have u: "decimal_to_string d md dp = ?body" by (simp add: s)
    show ?thesis
      unfolding parse_decimal_def u using b False by (simp add: Let_def)
  qed
qed

lemma decimal_round_trip:
  assumes "within_precision d md dp"
  shows "value_from_db_decimal (value_to_db_decimal (PDecimal d) md dp)
           = Inr (PDecimal \<lparr>dec_neg = dec_neg d, dec_coeff = quantize d dp, dec_places = dp\<rparr>)"
    and "decimal_eq \<lparr>dec_neg = dec_neg d, dec_coeff = quantize d dp, dec_places = dp\<rparr> d"
proof -
  from parse_decimal_to_string [OF assms]
  show "value_from_db_decimal (value_to_db_decimal (PDecimal d) md dp)
           = Inr (PDecimal \<lparr>dec_neg = dec_neg d, dec_coeff = quantize d dp, dec_places = dp\<rparr>)"
    by (simp add: value_from_db_decimal_def value_to_db_decimal_def decimal_of_text_def)
  from assms have p: "dec_places d \<le> dp" by (simp add: within_precision_def)
  then have "(10::int) ^ dp = 10 ^ (dp - dec_places d) * 10 ^ dec_places d"
    by (simp flip: power_add)
  with p show "decimal_eq \<lparr>dec_neg = dec_neg d, dec_coeff = quantize d dp, dec_places = dp\<rparr> d"
    by (simp add: decimal_eq_def decimal_signed_def quantize_def)
qed

text \<open>In a deployment with time zones every datetime that is decoded is aware, so a
  naive datetime never comes back equal to itself.\<close>

lemma attach_utc_aware:
  "USE_TZ e \<Longrightarrow> attach_utc e w = Inr (PDateTime y) \<Longrightarrow> d_tz y \<noteq> None"
  by (cases w) (auto simp: attach_utc_def is_naive_def replace_tzinfo_utc_def split: if_splits)

lemma naive_datetime_comes_back_aware:
  assumes "db_type f = Inr ''datetime''" and "USE_TZ e" and "d_tz dt = None"
  shows "\<not> round_trips e f (PDateTime dt)"
proof
  assume "round_trips e f (PDateTime dt)"
  then obtain x v' where "convert_values e x f = Inr v'" and eq: "py_eq v' (PDateTime dt)"
    by (auto simp: round_trips_def split: sum.splits)
  with assms(1) obtain w where w: "attach_utc e w = Inr v'"
    by (auto simp: convert_values_def value_from_db_datetime_def split: sum.splits)
  from eq obtain y where y: "v' = PDateTime y" and "datetime_eq y dt"
    by (cases v') (auto simp: py_eq_def)
  with assms(3) have "d_tz y = None" by (auto simp: datetime_eq_def split: if_splits)
  with attach_utc_aware [OF assms(2) w [unfolded y]] show False by simp
qed

lemma round_trip_text:
  assumes "\<forall>x. super_convert_values e x f = Inr x"
  shows "db_type f = Inr ''string'' \<Longrightarrow> round_trips e f (PUnicode u)"
    and "db_type f = Inr ''string'' \<Longrightarrow> is_ascii s \<Longrightarrow> decode_utf8 e s = Some (ascii_decode s) \<Longrightarrow>
         round_trips e f (PStr s)"
    and "db_type f = Inr ''text'' \<Longrightarrow> round_trips e f (PUnicode u)"
    and "db_type f = Inr ''text'' \<Longrightarrow> round_trips e f (PText u)"
    and "db_type f = Inr ''bytes'' \<Longrightarrow> round_trips e f (PStr s)"
    and "db_type f = Inr ''bytes'' \<Longrightarrow> round_trips e f (PBlob s)"
  using assms
  by (simp_all add: round_trips_def value_for_db_def convert_values_def decode_def py_eq_def
        text_of_def bytes_of_def)

lemma round_trip_dates:
  assumes "\<forall>x. super_convert_values e x f = Inr x"
  shows "db_type f = Inr ''date'' \<Longrightarrow> round_trips e f (PDate n)"
    and "db_type f = Inr ''time'' \<Longrightarrow> t_tz tm = None \<Longrightarrow> round_trips e f (PTime tm)"
  using assms
  by (simp_all add: round_trips_def value_for_db_def convert_values_def py_eq_def
        value_to_db_date_def combine_def value_from_db_date_def date_of_def
        value_to_db_time_def make_timezone_naive_def value_from_db_time_def attach_utc_def
        is_naive_def replace_tzinfo_utc_def time_of_def time_eq_def)

lemma round_trip_datetime:
  assumes "\<forall>x. super_convert_values e x f = Inr x" and "db_type f = Inr ''datetime''"
      and "d_tz dt = None \<longleftrightarrow> \<not> USE_TZ e"
  shows "round_trips e f (PDateTime dt)"
proof (cases "d_tz dt")
  case None
  with assms show ?thesis
    by (simp add: round_trips_def value_for_db_def convert_values_def py_eq_def
        value_to_db_datetime_def make_timezone_naive_def value_from_db_datetime_def attach_utc_def
        datetime_eq_def)
next
  case (Some off)
  have "0 \<le> datetime_instant dt mod usec_per_day" by (simp add: usec_per_day_def)
  with Some assms show ?thesis
    by (simp add: round_trips_def value_for_db_def convert_values_def py_eq_def
        value_to_db_datetime_def make_timezone_naive_def value_from_db_datetime_def attach_utc_def
        is_naive_def replace_tzinfo_utc_def datetime_eq_def)
       (simp add: datetime_instant_def)
qed

lemma round_trip_decimal:
  assumes "\<forall>x. super_convert_values e x f = Inr x" and "db_type f = Inr ''decimal''"
      and "within_precision d (max_digits f) (decimal_places f)"
  shows "round_trips e f (PDecimal d)"
  using assms decimal_round_trip [OF assms(3)]
  by (simp add: round_trips_def value_for_db_def convert_values_def py_eq_def)

text \<open>C1, as the code has it. Let the framework's own \<^verbatim>\<open>convert_values\<close> leave values
  as they are. Then encoding with \<^verbatim>\<open>value_for_db\<close> and decoding with
  \<^verbatim>\<open>convert_values\<close> succeeds and gives back a value equal to the original for: a
  unicode string, and an ASCII byte string, in a string column; a unicode string or a
  \<^verbatim>\<open>Text\<close> in a text column; a byte string or a \<^verbatim>\<open>Blob\<close> in a bytes column; a
  date in a date column; a datetime in a datetime column when it is aware in a
  deployment with time zones and naive in one without; a naive time in a time column;
  and a decimal within the declared precision in a decimal column. For every decimal
  within \<open>(max_digits, decimal_places)\<close>, \<^verbatim>\<open>value_from_db_decimal\<close> of
  \<^verbatim>\<open>value_to_db_decimal\<close> is a decimal equal to it.\<close>

theorem codec_round_trip:
  assumes "\<forall>x. super_convert_values e x f = Inr x"
  shows "(db_type f = Inr ''string'' \<longrightarrow>
            round_trips e f (PUnicode u)
            \<and> (is_ascii s \<and> decode_utf8 e s = Some (ascii_decode s) \<longrightarrow> round_trips e f (PStr s)))
       \<and> (db_type f = Inr ''text'' \<longrightarrow> round_trips e f (PUnicode u) \<and> round_trips e f (PText u))
       \<and> (db_type f = Inr ''bytes'' \<longrightarrow> round_trips e f (PStr s) \<and> round_trips e f (PBlob s))
       \<and> (db_type f = Inr ''date'' \<longrightarrow> round_trips e f (PDate n))
       \<and> (db_type f = Inr ''datetime'' \<and> (d_tz dt = None \<longleftrightarrow> \<not> USE_TZ e)
            \<longrightarrow> round_trips e f (PDateTime dt))
       \<and> (db_type f = Inr ''time'' \<and> t_tz tm = None \<longrightarrow> round_trips e f (PTime tm))
       \<and> (db_type f = Inr ''decimal'' \<and> within_precision d (max_digits f) (decimal_places f)
            \<longrightarrow> round_trips e f (PDecimal d))
       \<and> (within_precision d md dp \<longrightarrow>
            (\<exists>d'. value_from_db_decimal (value_to_db_decimal (PDecimal d) md dp) = Inr (PDecimal d')
                  \<and> decimal_eq d' d))"
proof (intro conjI impI)
  assume "within_precision d md dp"
  from decimal_round_trip [OF this]
  show "\<exists>d'. value_from_db_decimal (value_to_db_decimal (PDecimal d) md dp) = Inr (PDecimal d')
                  \<and> decimal_eq d' d"
    by blast
qed (simp_all add: round_trip_text [OF assms] round_trip_dates [OF assms]
       round_trip_datetime [OF assms] round_trip_decimal [OF assms])

text \<open>C1 at concrete values: two strings, an aware datetime with time zones and a naive
  one without, and the decimal -1.5, stored as \<^verbatim>\<open>-001.50\<close>.\<close>

theorem codec_round_trip_witness:
  "round_trips example_env person_email (PUnicode [97, 98])
   \<and> round_trips example_env person_email (PStr ''ab'')
   \<and> round_trips tz_env stamp_field (PDateTime \<lparr>d_day = 19000, d_usec = 5, d_tz = Some 60\<rparr>)
   \<and> round_trips example_env stamp_field (PDateTime \<lparr>d_day = 19000, d_usec = 5, d_tz = None\<rparr>)
   \<and> round_trips example_env price_field (PDecimal \<lparr>dec_neg = True, dec_coeff = 15, dec_places = 1\<rparr>)
   \<and> value_to_db_decimal (PDecimal \<lparr>dec_neg = True, dec_coeff = 15, dec_places = 1\<rparr>) 5 2
       = PUnicode [45, 48, 48, 49, 46, 53, 48]"
proof -
  have p: "within_precision \<lparr>dec_neg = True, dec_coeff = 15, dec_places = 1\<rparr> 5 2"
    by (simp add: within_precision_def)
  have m: "max_digits price_field = 5" "decimal_places price_field = 2"
    by (simp_all add: price_field_def)
  have a: "is_ascii ''ab'' \<and> decode_utf8 example_env ''ab'' = Some (ascii_decode ''ab'')"
    by (simp add: example_env_def is_ascii_def)
  have t: "USE_TZ tz_env" "\<not> USE_TZ example_env" by (simp_all add: tz_env_def example_env_def)
  have s: "value_to_db_decimal (PDecimal \<lparr>dec_neg = True, dec_coeff = 15, dec_places = 1\<rparr>) 5 2
       = PUnicode [45, 48, 48, 49, 46, 53, 48]"
    by (simp add: value_to_db_decimal_def decimal_to_string_def quantize_def Let_def
          numeral_3_eq_3 numeral_2_eq_2)
  from codec_round_trip [OF example_super(1), of person_email "[97, 98]" "''ab''"]
       codec_round_trip [OF example_super(2), of stamp_field _ _ _ "\<lparr>d_day = 19000, d_usec = 5, d_tz = Some 60\<rparr>"]
       codec_round_trip [OF example_super(1), of stamp_field _ _ _ "\<lparr>d_day = 19000, d_usec = 5, d_tz = None\<rparr>"]
       codec_round_trip [OF example_super(1), of price_field _ _ _ _ _
                           "\<lparr>dec_neg = True, dec_coeff = 15, dec_places = 1\<rparr>" 5 2]
       example_db_types p m a t s
  show ?thesis by simp
qed

text \<open>C1 as stated fails: with time zones, a naive datetime is stored as it is and
  decoded with UTC attached, and an aware datetime is not equal to a naive one.\<close>

theorem naive_datetime_comes_back_aware_counterexample:
  "value_for_db tz_env (PDateTime \<lparr>d_day = 19000, d_usec = 5, d_tz = None\<rparr>) stamp_field
     = Inr (PDateTime \<lparr>d_day = 19000, d_usec = 5, d_tz = None\<rparr>)
   \<and> convert_values tz_env (PDateTime \<lparr>d_day = 19000, d_usec = 5, d_tz = None\<rparr>) stamp_field
     = Inr (PDateTime \<lparr>d_day = 19000, d_usec = 5, d_tz = Some 0\<rparr>)
   \<and> \<not> py_eq (PDateTime \<lparr>d_day = 19000, d_usec = 5, d_tz = Some 0\<rparr>)
              (PDateTime \<lparr>d_day = 19000, d_usec = 5, d_tz = None\<rparr>)
   \<and> \<not> round_trips tz_env stamp_field (PDateTime \<lparr>d_day = 19000, d_usec = 5, d_tz = None\<rparr>)"
proof -
  have t: "USE_TZ tz_env" by (simp add: tz_env_def)
  have s: "super_convert_values tz_env x f = Inr x" for x f using example_super(2) by simp
  have 1: "value_for_db tz_env (PDateTime \<lparr>d_day = 19000, d_usec = 5, d_tz = None\<rparr>) stamp_field
     = Inr (PDateTime \<lparr>d_day = 19000, d_usec = 5, d_tz = None\<rparr>)"
    by (simp add: value_for_db_def example_db_types value_to_db_datetime_def make_timezone_naive_def)
  have 2: "convert_values tz_env (PDateTime \<lparr>d_day = 19000, d_usec = 5, d_tz = None\<rparr>) stamp_field
     = Inr (PDateTime \<lparr>d_day = 19000, d_usec = 5, d_tz = Some 0\<rparr>)"
    by (simp add: convert_values_def s example_db_types value_from_db_datetime_def attach_utc_def t
          is_naive_def replace_tzinfo_utc_def)
  have 3: "\<not> py_eq (PDateTime \<lparr>d_day = 19000, d_usec = 5, d_tz = Some 0\<rparr>)
              (PDateTime \<lparr>d_day = 19000, d_usec = 5, d_tz = None\<rparr>)"
    by (simp add: py_eq_def datetime_eq_def)
  from 1 2 3 show ?thesis by (simp add: round_trips_def)
qed

text \<open>The absent value is outside the round trip: \<^verbatim>\<open>value_for_db\<close> stores
  \<^verbatim>\<open>None\<close> as \<^verbatim>\<open>None\<close>, and for a date or a time column the decoder then calls
  \<^verbatim>\<open>.date()\<close> or \<^verbatim>\<open>.time()\<close> on it, which raises.\<close>

lemma null_date_is_not_decoded:
  assumes "super_convert_values e PNone f = Inr PNone"
      and "db_type f = Inr ''date'' \<or> db_type f = Inr ''time''"
  shows "value_for_db e PNone f = Inr PNone" and "convert_values e PNone f = Inl AttributeError"
  using assms
  by (auto simp: value_for_db_def convert_values_def value_from_db_date_def value_from_db_time_def
        date_of_def time_of_def attach_utc_def)

end
